theory Spec2Isabelle
  imports Main
begin

section \<open>Python values and built-ins used by \<^verbatim>\<open>pyworkflow/protocol/launch.py\<close>\<close>

text \<open>
  The module is read as Python 3 code: \<^verbatim>\<open>_submit\<close> treats what the pipe returns as bytes
  (\<^verbatim>\<open>str(out)\<close>, \<^verbatim>\<open>out.decode()\<close>), and \<^verbatim>\<open>Popen\<close> is never opened in text mode. A value
  is a text string, a bytes object, an integer or \<^verbatim>\<open>None\<close>; text is held as its UTF-8
  bytes. \<^verbatim>\<open>str(b)\<close> of a bytes object is its printed form \<^verbatim>\<open>b'...'\<close>, \<^verbatim>\<open>b.decode()\<close> is
  the strict UTF-8 decoding, and a regular expression given as text cannot search bytes.
  Integers are unbounded.
\<close>

datatype pyval = PStr string | PBytes string | PInt int | PNone

datatype error =
    KeyError string
  | ValueError string
  | TypeError string
  | IOError string
  | UnicodeDecodeError string
  | AttributeError string
  | Exception string
  | Unsupported string

subsection \<open>Decimal digits, \<^verbatim>\<open>str(int)\<close> and \<^verbatim>\<open>int(str)\<close>\<close>

definition isdigit :: "char \<Rightarrow> bool" where
  "isdigit c = (c \<in> set ''0123456789'')"

definition digit_char :: "nat \<Rightarrow> char" where
  "digit_char n = ''0123456789'' ! (n mod 10)"

text \<open>The value of a decimal digit is its position in the string of digits.\<close>

fun digit_val :: "char \<Rightarrow> int" where
  "digit_val c = int (length (takeWhile (\<lambda>d. d \<noteq> c) ''0123456789''))"

fun str_nat :: "nat \<Rightarrow> string" where
  "str_nat n = (if n < 10 then [digit_char n] else str_nat (n div 10) @ [digit_char n])"

declare str_nat.simps [simp del]

definition str_int :: "int \<Rightarrow> string" where
  "str_int i = (if i < 0 then CHR ''-'' # str_nat (nat (- i)) else str_nat (nat i))"

text \<open>\<^verbatim>\<open>int(s)\<close> on a non-empty run of decimal digits, which is all the module passes to it.\<close>

definition int_of_digits :: "string \<Rightarrow> int" where
  "int_of_digits ds = foldl (\<lambda>a c. 10 * a + digit_val c) 0 ds"

text \<open>
  The printed form of a bytes object: the quote is the double quote only when the bytes
  hold a single quote and no double quote; the quote and the backslash are escaped, tab,
  line feed and carriage return are written with their letters, and every other byte
  below 32 or above 126 as \<^verbatim>\<open>\xhh\<close>.
\<close>

definition hexdigit :: "nat \<Rightarrow> char" where
  "hexdigit n = ''0123456789abcdef'' ! (n mod 16)"

fun repr_byte :: "char \<Rightarrow> char \<Rightarrow> string" where
  "repr_byte q c =
     (if c = q \<or> c = CHR 0x5C then [CHR 0x5C, c]
      else if c = CHR 0x09 then [CHR 0x5C, CHR ''t'']
      else if c = CHR 0x0A then [CHR 0x5C, CHR ''n'']
      else if c = CHR 0x0D then [CHR 0x5C, CHR ''r'']
      else if (of_char c :: nat) < 32 \<or> 127 \<le> (of_char c :: nat)
      then [CHR 0x5C, CHR ''x'', hexdigit (of_char c div 16), hexdigit (of_char c)]
      else [c])"

definition bytes_repr :: "string \<Rightarrow> string" where
  "bytes_repr b =
     (let q = (if CHR 0x27 \<in> set b \<and> CHR 0x22 \<notin> set b then CHR 0x22 else CHR 0x27)
      in CHR ''b'' # q # concat (map (repr_byte q) b) @ [q])"

fun py_str :: "pyval \<Rightarrow> string" where
  "py_str (PStr s) = s"
| "py_str (PBytes b) = bytes_repr b"
| "py_str (PInt i) = str_int i"
| "py_str PNone = ''None''"

text \<open>The truth value that \<^verbatim>\<open>if x:\<close> tests.\<close>

fun truthy :: "pyval \<Rightarrow> bool" where
  "truthy (PStr s) = (s \<noteq> [])"
| "truthy (PBytes b) = (b \<noteq> [])"
| "truthy (PInt i) = (i \<noteq> 0)"
| "truthy PNone = False"

subsection \<open>The \<^verbatim>\<open>%\<close> operator with a mapping on the right\<close>

text \<open>
  \<^verbatim>\<open>template % mapping\<close> copies the template and replaces each conversion. The scanner
  below follows the interpreter's: after \<^verbatim>\<open>%(\<close> the key runs to the matching closing
  parenthesis (nested parentheses are counted) and is looked up at once, so a missing key
  raises \<^verbatim>\<open>KeyError\<close> before the conversion character is read; a template that ends inside
  a conversion raises \<^verbatim>\<open>ValueError\<close>. The conversions \<^verbatim>\<open>s\<close>, \<^verbatim>\<open>d\<close>, \<^verbatim>\<open>i\<close> and \<^verbatim>\<open>%\<close>
  are modelled; flags, widths, precisions, the other conversion characters and conversions
  without a key are not, and stop the scanner with \<open>Unsupported\<close>.
\<close>

datatype fstate = Lit | Pct | Key nat string | Conv pyval

fun fmt_go :: "(string \<rightharpoonup> pyval) \<Rightarrow> fstate \<Rightarrow> string \<Rightarrow> string \<Rightarrow> error + string" where
  "fmt_go d Lit out [] = Inr out"
| "fmt_go d Pct out [] = Inl (ValueError ''incomplete format'')"
| "fmt_go d (Key n k) out [] = Inl (ValueError ''incomplete format key'')"
| "fmt_go d (Conv v) out [] = Inl (ValueError ''incomplete format'')"
| "fmt_go d Lit out (c # cs) =
     (if c = CHR ''%'' then fmt_go d Pct out cs else fmt_go d Lit (out @ [c]) cs)"
| "fmt_go d Pct out (c # cs) =
     (if c = CHR ''('' then fmt_go d (Key 0 []) out cs
      else if c = CHR ''%'' then fmt_go d Lit (out @ ''%'') cs
      else Inl (Unsupported ''conversion without a key''))"
| "fmt_go d (Key n k) out (c # cs) =
     (if c = CHR '')'' then
        (case n of
           0 \<Rightarrow> (case d k of None \<Rightarrow> Inl (KeyError k) | Some v \<Rightarrow> fmt_go d (Conv v) out cs)
         | Suc m \<Rightarrow> fmt_go d (Key m (k @ [c])) out cs)
      else if c = CHR ''('' then fmt_go d (Key (Suc n) (k @ [c])) out cs
      else fmt_go d (Key n (k @ [c])) out cs)"
| "fmt_go d (Conv v) out (c # cs) =
     (if c = CHR ''s'' then fmt_go d Lit (out @ py_str v) cs
      else if c = CHR ''d'' \<or> c = CHR ''i'' then
        (case v of
           PInt i \<Rightarrow> fmt_go d Lit (out @ str_int i) cs
         | PStr s \<Rightarrow> Inl (TypeError ''%d format: a number is required, not str'')
         | PBytes b \<Rightarrow> Inl (TypeError ''%d format: a number is required, not bytes'')
         | PNone \<Rightarrow> Inl (TypeError ''%d format: a number is required, not NoneType''))
      else if c = CHR ''%'' then fmt_go d Lit (out @ ''%'') cs
      else Inl (Unsupported ''flags, width, precision or another conversion''))"

definition fmt :: "string \<Rightarrow> (string \<rightharpoonup> pyval) \<Rightarrow> error + string" where
  "fmt template d = fmt_go d Lit [] template"

subsection \<open>The two regular-expression searches\<close>

text \<open>\<^verbatim>\<open>re.search('(\d+)', s)\<close>: the leftmost, longest run of decimal digits.\<close>

definition search_digits :: "string \<Rightarrow> string option" where
  "search_digits s =
     (let r = takeWhile isdigit (dropWhile (\<lambda>c. \<not> isdigit c) s)
      in if r = [] then None else Some r)"

definition REMOTE_MARKER :: string where
  "REMOTE_MARKER = ''Scipion remote jobid: ''"

text \<open>
  \<^verbatim>\<open>re.search('Scipion remote jobid: (\d+)', s)\<close>: the leftmost position where the
  marker is followed by at least one digit; the result is group 1, the digits after it.
\<close>

definition match_jobid_here :: "string \<Rightarrow> string option" where
  "match_jobid_here s =
     (let r = takeWhile isdigit (drop (length REMOTE_MARKER) s)
      in if take (length REMOTE_MARKER) s = REMOTE_MARKER \<and> r \<noteq> [] then Some r else None)"

fun search_jobid :: "string \<Rightarrow> string option" where
  "search_jobid [] = None"
| "search_jobid (c # cs) =
     (case match_jobid_here (c # cs) of Some r \<Rightarrow> Some r | None \<Rightarrow> search_jobid cs)"

text \<open>
  \<^verbatim>\<open>re.search\<close> with that pattern, given as text, on a value: text is searched, bytes
  and everything else raise \<^verbatim>\<open>TypeError\<close> before any matching.
\<close>

fun re_search_jobid :: "pyval \<Rightarrow> error + string option" where
  "re_search_jobid (PStr s) = Inr (search_jobid s)"
| "re_search_jobid (PBytes b) =
     Inl (TypeError ''cannot use a string pattern on a bytes-like object'')"
| "re_search_jobid (PInt i) = Inl (TypeError ''expected string or bytes-like object'')"
| "re_search_jobid PNone = Inl (TypeError ''expected string or bytes-like object'')"

subsection \<open>\<^verbatim>\<open>bytes.decode()\<close> and \<^verbatim>\<open>os.path\<close>\<close>

text \<open>
  Strict UTF-8 over the byte values: one byte below 128; a lead byte \<^verbatim>\<open>C2..DF\<close> with one
  continuation byte; \<^verbatim>\<open>E0..EF\<close> with two and \<^verbatim>\<open>F0..F4\<close> with three, the first of them
  narrowed after \<^verbatim>\<open>E0\<close>, \<^verbatim>\<open>ED\<close>, \<^verbatim>\<open>F0\<close> and \<^verbatim>\<open>F4\<close> so that overlong forms,
  surrogates and code points above \<^verbatim>\<open>10FFFF\<close> are refused.
\<close>

definition cont_byte :: "nat \<Rightarrow> bool" where
  "cont_byte b = (128 \<le> b \<and> b \<le> 191)"

fun utf8_valid :: "nat list \<Rightarrow> bool" where
  "utf8_valid [] = True"
| "utf8_valid (b # bs) =
     (if b < 128 then utf8_valid bs
      else if 194 \<le> b \<and> b \<le> 223 then
        (case bs of c1 # r \<Rightarrow> cont_byte c1 \<and> utf8_valid r | _ \<Rightarrow> False)
      else if 224 \<le> b \<and> b \<le> 239 then
        (case bs of
           c1 # c2 # r \<Rightarrow>
             cont_byte c1 \<and> cont_byte c2 \<and> (b = 224 \<longrightarrow> 160 \<le> c1) \<and>
             (b = 237 \<longrightarrow> c1 \<le> 159) \<and> utf8_valid r
         | _ \<Rightarrow> False)
      else if 240 \<le> b \<and> b \<le> 244 then
        (case bs of
           c1 # c2 # c3 # r \<Rightarrow>
             cont_byte c1 \<and> cont_byte c2 \<and> cont_byte c3 \<and> (b = 240 \<longrightarrow> 144 \<le> c1) \<and>
             (b = 244 \<longrightarrow> c1 \<le> 143) \<and> utf8_valid r
         | _ \<Rightarrow> False)
      else False)"

fun decode :: "pyval \<Rightarrow> error + string" where
  "decode (PBytes b) =
     (if utf8_valid (map of_char b) then Inr b else Inl (UnicodeDecodeError b))"
| "decode (PStr s) = Inl (AttributeError ''str object has no attribute decode'')"
| "decode (PInt i) = Inl (AttributeError ''int object has no attribute decode'')"
| "decode PNone = Inl (AttributeError ''NoneType object has no attribute decode'')"

definition basename :: "string \<Rightarrow> string" where
  "basename p = rev (takeWhile (\<lambda>c. c \<noteq> CHR ''/'') (rev p))"

definition dirname :: "string \<Rightarrow> string" where
  "dirname p =
     (let head = rev (dropWhile (\<lambda>c. c \<noteq> CHR ''/'') (rev p))
      in if head \<noteq> [] \<and> \<not> list_all (\<lambda>c. c = CHR ''/'') head
         then rev (dropWhile (\<lambda>c. c = CHR ''/'') (rev head)) else head)"

definition path_join :: "string \<Rightarrow> string \<Rightarrow> string" where
  "path_join a b =
     (if b \<noteq> [] \<and> hd b = CHR ''/'' then b
      else if a = [] \<or> last a = CHR ''/'' then a @ b
      else a @ ''/'' @ b)"

section \<open>The collaborators: host configuration, protocol, pyworkflow constants\<close>

record HostConfig =
  getAddress :: string
  getScipionHome :: string
  getScipionConfig :: "string option"
  getSubmitTemplate :: string
  getSubmitCommand :: string
  getCancelCommand :: string
  getQueuesDefault :: "string \<rightharpoonup> pyval"

text \<open>
  The protocol object, reduced to what the module reads through its getters;
  \<open>getProjectPath\<close> stands for \<^verbatim>\<open>protocol.getProject().path\<close> and \<^verbatim>\<open>strId()\<close> is the
  decimal text of \<open>getObjId\<close>.
\<close>

record Protocol =
  getHostName :: string
  getHostConfig :: HostConfig
  useQueue :: bool
  getSubmitDict :: "string \<rightharpoonup> pyval"
  isScheduled :: bool
  getJobId :: int
  getPid :: int
  getProjectPath :: string
  getDbPath :: string
  getObjId :: int

definition strId :: "Protocol \<Rightarrow> string" where
  "strId protocol = str_int (getObjId protocol)"

definition setJobId :: "int \<Rightarrow> Protocol \<Rightarrow> Protocol" where
  "setJobId j protocol = protocol\<lparr>getJobId := j\<rparr>"

text \<open>
  What the module imports from the rest of pyworkflow and does not define: the
  interpreter and applications paths, the sentinel job id and the two colouring
  functions. They are parameters of the model.
\<close>

record pwenv =
  PYTHON :: string
  APPS :: string
  UNKNOWN_JOBID :: int
  greenStr :: "string \<Rightarrow> string"
  redStr :: "string \<Rightarrow> string"

definition LOCALHOST :: string where
  "LOCALHOST = ''localhost''"

section \<open>The operating system: processes, files, and the trace of effects\<close>

text \<open>
  A spawned process is described by what it will have done when it exits. The shell is a
  function from the command line to that description. Every effect of the module is
  appended to the trace, in order.
\<close>

record proc =
  proc_pid :: int
  proc_stdout :: string
  proc_stderr :: string
  proc_returncode :: int

record popen =
  child :: proc
  stdout_piped :: bool
  stderr_piped :: bool

datatype event =
    Print string
  | Spawn string
  | WaitExit int
  | KillWithChilds int
  | FileOpen string
  | FileWrite string string
  | FileClose string

record world =
  dirs :: "string set"
  files :: "string \<rightharpoonup> string"
  trace :: "event list"

definition emit :: "event \<Rightarrow> world \<Rightarrow> world" where
  "emit e w = w\<lparr>trace := trace w @ [e]\<rparr>"

text \<open>
  \<^verbatim>\<open>Popen(cmd, shell=True, stdout=..., stderr=...)\<close>: the two flags say which streams
  were given \<^verbatim>\<open>PIPE\<close>; the call never asks for text mode. \<^verbatim>\<open>communicate()\<close> waits for
  the child and returns, for each stream, the captured bytes when it was piped and
  \<^verbatim>\<open>None\<close> when it was not.
\<close>

definition Popen :: "(string \<Rightarrow> proc) \<Rightarrow> string \<Rightarrow> bool \<Rightarrow> bool \<Rightarrow> world \<Rightarrow> popen \<times> world" where
  "Popen sh cmd out_pipe err_pipe w =
     (\<lparr>child = sh cmd, stdout_piped = out_pipe, stderr_piped = err_pipe\<rparr>, emit (Spawn cmd) w)"

definition communicate :: "popen \<Rightarrow> world \<Rightarrow> (pyval \<times> pyval) \<times> world" where
  "communicate p w =
     ((if stdout_piped p then PBytes (proc_stdout (child p)) else PNone,
       if stderr_piped p then PBytes (proc_stderr (child p)) else PNone),
      emit (WaitExit (proc_pid (child p))) w)"

text \<open>
  \<^verbatim>\<open>open(path, 'w')\<close> creates or truncates the file; it raises when the path is empty, names
  a directory, or lies in a directory that does not exist. \<open>dirs\<close> holds the existing
  directories as the paths spell them; the empty name is the working directory.
\<close>

definition open_w :: "string \<Rightarrow> world \<Rightarrow> error + world" where
  "open_w path w =
     (if path = [] \<or> path \<in> dirs w then Inl (IOError path)
      else if dirname path = [] \<or> dirname path \<in> dirs w
      then Inr (emit (FileOpen path) (w\<lparr>files := (files w)(path \<mapsto> [])\<rparr>))
      else Inl (IOError path))"

definition file_write :: "string \<Rightarrow> string \<Rightarrow> world \<Rightarrow> world" where
  "file_write path text w =
     emit (FileWrite path text)
       (w\<lparr>files := (files w)(path \<mapsto> (case files w path of None \<Rightarrow> [] | Some old \<Rightarrow> old) @ text)\<rparr>)"

definition file_close :: "string \<Rightarrow> world \<Rightarrow> world" where
  "file_close path w = emit (FileClose path) w"

definition ancestors :: "string \<Rightarrow> string list" where
  "ancestors d =
     filter (\<lambda>q. q \<noteq> [])
       (map (\<lambda>i. take i d)
          (filter (\<lambda>i. i = length d \<or> d ! i = CHR ''/'') [0..<Suc (length d)]))"

text \<open>
  Modelled from the spec: \<^verbatim>\<open>makeFilePath\<close> of \<^verbatim>\<open>pyworkflow.utils\<close>, which is imported
  and not defined in the module. It ``creates any missing parent directories'' of the
  file: the directory of the path and the directories above it.
\<close>

definition makeFilePath :: "string \<Rightarrow> world \<Rightarrow> world" where
  "makeFilePath path w =
     (let d = dirname path
      in if d = [] \<or> d \<in> dirs w then w else w\<lparr>dirs := dirs w \<union> set (ancestors d)\<rparr>)"

section \<open>The module \<^verbatim>\<open>launch.py\<close>\<close>

definition NL :: string where
  "NL = [CHR 0x0A]"

definition QUOTE :: string where
  "QUOTE = [CHR 0x27]"

definition isLocal :: "Protocol \<Rightarrow> bool" where
  "isLocal protocol = (getHostName protocol = LOCALHOST)"

text \<open>
  \<^verbatim>\<open>_run\<close>: print, spawn through the shell with no stream piped, take the pid, and wait
  only when asked to. The redirections handed through to \<^verbatim>\<open>Popen\<close> do not change what is
  returned and are left out.
\<close>

definition run :: "pwenv \<Rightarrow> (string \<Rightarrow> proc) \<Rightarrow> string \<Rightarrow> bool \<Rightarrow> world \<Rightarrow> int \<times> world" where
  "run pw sh command wait w =
     (let gcmd = greenStr pw command;
          w1 = emit (Print (''** Running command: '' @ QUOTE @ gcmd @ QUOTE)) w
      in case Popen sh command False False w1 of
           (p, w2) \<Rightarrow>
             (let jobId = proc_pid (child p)
              in (jobId, if wait then emit (WaitExit jobId) w2 else w2)))"

text \<open>
  \<^verbatim>\<open>_submit\<close>, statement by statement: render the script, read \<^verbatim>\<open>JOB_SCRIPT\<close>, open the
  file, make its directory, write and close, render the command, spawn it with stdout
  piped, wait, search the printed form of the output for digits, and return the job id, or
  decode the output for the warning and return the sentinel.
\<close>

definition submit ::
  "pwenv \<Rightarrow> (string \<Rightarrow> proc) \<Rightarrow> HostConfig \<Rightarrow> (string \<rightharpoonup> pyval) \<Rightarrow> world \<Rightarrow> (error + int) \<times> world" where
  "submit pw sh hostConfig submitDict w =
     (case fmt (getSubmitTemplate hostConfig) submitDict of
        Inl e \<Rightarrow> (Inl e, w)
      | Inr template \<Rightarrow>
          (case submitDict ''JOB_SCRIPT'' of
             None \<Rightarrow> (Inl (KeyError ''JOB_SCRIPT''), w)
           | Some PNone \<Rightarrow> (Inl (TypeError ''expected str, bytes or os.PathLike object''), w)
           | Some (PInt fd) \<Rightarrow> (Inl (Unsupported ''open() on a number''), w)
           | Some (PBytes bp) \<Rightarrow> (Inl (Unsupported ''open() on a bytes path''), w)
           | Some (PStr scripPath) \<Rightarrow>
               (case open_w scripPath w of
                  Inl e \<Rightarrow> (Inl e, w)
                | Inr w1 \<Rightarrow>
                    (let w2 = makeFilePath scripPath w1;
                         w3 = file_write scripPath (template @ NL @ NL) w2;
                         w4 = file_close scripPath w3
                     in case fmt (getSubmitCommand hostConfig) submitDict of
                          Inl e \<Rightarrow> (Inl e, w4)
                        | Inr command \<Rightarrow>
                            (let gcmd = greenStr pw command;
                                 w5 = emit (Print (''** Submitting to queue: '' @ QUOTE @ gcmd @ QUOTE)) w4
                             in case Popen sh command True False w5 of
                                  (p, w6) \<Rightarrow>
                                    (case communicate p w6 of
                                       ((out, err), w7) \<Rightarrow>
                                         (let s = search_digits (py_str out)
                                          in case (if proc_returncode (child p) = 0 then s else None) of
                                               Some ds \<Rightarrow>
                                                 (let job = int_of_digits ds
                                                  in (Inr job,
                                                      emit (Print (''Launched job with id '' @ str_int job)) w7))
                                             | None \<Rightarrow>
                                                 (case decode out of
                                                    Inl e \<Rightarrow> (Inl e, w7)
                                                  | Inr u \<Rightarrow>
                                                      (Inr (UNKNOWN_JOBID pw),
                                                       emit (Print (''Couldn't submit to queue for reason: ''
                                                                    @ redStr pw u @ '' '')) w7)))))))))"

text \<open>The command line of the job itself, built at the top of \<^verbatim>\<open>_launchLocal\<close>.\<close>

definition protocol_command :: "pwenv \<Rightarrow> Protocol \<Rightarrow> string" where
  "protocol_command pw protocol =
     PYTHON pw @ '' '' @ path_join (APPS pw) ''pw_protocol_run.py'' @ '' \"'' @
     getProjectPath protocol @ ''\" \"'' @ getDbPath protocol @ ''\" '' @ strId protocol"

text \<open>
  The test of the \<^verbatim>\<open>if\<close> in \<^verbatim>\<open>_launchLocal\<close>:
  \<^verbatim>\<open>useQueue and (protocol.getSubmitDict()["QUEUE_FOR_JOBS"] == "N")\<close>. The subscript is
  evaluated only when \<^verbatim>\<open>useQueue\<close> holds, and raises when the key is missing.
\<close>

definition launch_queue_test :: "Protocol \<Rightarrow> error + bool" where
  "launch_queue_test protocol =
     (if useQueue protocol then
        (case getSubmitDict protocol ''QUEUE_FOR_JOBS'' of
           None \<Rightarrow> Inl (KeyError ''QUEUE_FOR_JOBS'')
         | Some v \<Rightarrow> Inr (v = PStr ''N''))
      else Inr False)"

definition launchLocal ::
  "pwenv \<Rightarrow> (string \<Rightarrow> proc) \<Rightarrow> Protocol \<Rightarrow> bool \<Rightarrow> world \<Rightarrow> (error + int) \<times> world" where
  "launchLocal pw sh protocol wait w =
     (let command = protocol_command pw protocol;
          hostConfig = getHostConfig protocol
      in case launch_queue_test protocol of
           Inl e \<Rightarrow> (Inl e, w)
         | Inr True \<Rightarrow>
             (let submitDict = (getQueuesDefault hostConfig ++ getSubmitDict protocol)
                                 (''JOB_COMMAND'' \<mapsto> PStr command)
              in submit pw sh hostConfig submitDict w)
         | Inr False \<Rightarrow>
             (case run pw sh command wait w of (jobId, w1) \<Rightarrow> (Inr jobId, w1)))"

text \<open>
  \<^verbatim>\<open>_runRemote\<close>: the template is assembled, formatted with the seven-entry dictionary,
  printed, and spawned with only stdout piped. The handle is returned; nothing waits.
\<close>

definition remote_template :: "HostConfig \<Rightarrow> string" where
  "remote_template host =
     ''ssh %(address)s '' @ QUOTE @ ''%(scipion)s/scipion '' @
     (if getScipionConfig host \<noteq> None then ''--config %(config)s '' else []) @
     ''runprotocol pw_protocol_remote.py %(mode)s '' @
     ''%(project)s %(protDb)s %(protId)s'' @ QUOTE @ '' ''"

definition remote_args :: "Protocol \<Rightarrow> string \<Rightarrow> (string \<rightharpoonup> pyval)" where
  "remote_args protocol mode =
     [''address'' \<mapsto> PStr (getAddress (getHostConfig protocol)),
      ''mode'' \<mapsto> PStr mode,
      ''scipion'' \<mapsto> PStr (getScipionHome (getHostConfig protocol)),
      ''config'' \<mapsto> (case getScipionConfig (getHostConfig protocol) of
                         None \<Rightarrow> PNone | Some c \<Rightarrow> PStr c),
      ''project'' \<mapsto> PStr (basename (getProjectPath protocol)),
      ''protDb'' \<mapsto> PStr (getDbPath protocol),
      ''protId'' \<mapsto> PInt (getObjId protocol)]"

definition runRemote ::
  "pwenv \<Rightarrow> (string \<Rightarrow> proc) \<Rightarrow> Protocol \<Rightarrow> string \<Rightarrow> world \<Rightarrow> (error + popen) \<times> world" where
  "runRemote pw sh protocol mode w =
     (case fmt (remote_template (getHostConfig protocol)) (remote_args protocol mode) of
        Inl e \<Rightarrow> (Inl e, w)
      | Inr cmd \<Rightarrow>
          (let w1 = emit (Print (''** Running remote: '' @ greenStr pw cmd)) w
           in case Popen sh cmd True False w1 of (p, w2) \<Rightarrow> (Inr p, w2)))"

text \<open>
  \<^verbatim>\<open>_launchRemote\<close>: wait for the helper, raise on a non-empty \<^verbatim>\<open>err\<close>, search \<^verbatim>\<open>out\<close>
  for the marker and return the integer after it, or raise with the output. Here \<^verbatim>\<open>err\<close>
  is what \<^verbatim>\<open>communicate()\<close> returns for a stream that \<^verbatim>\<open>_runRemote\<close> did not pipe, and
  \<^verbatim>\<open>out\<close> is bytes.
\<close>

definition launchRemote ::
  "pwenv \<Rightarrow> (string \<Rightarrow> proc) \<Rightarrow> Protocol \<Rightarrow> bool \<Rightarrow> world \<Rightarrow> (error + int) \<times> world" where
  "launchRemote pw sh protocol wait w =
     (case runRemote pw sh protocol ''run'' w of
        (Inl e, w1) \<Rightarrow> (Inl e, w1)
      | (Inr p, w1) \<Rightarrow>
          (case communicate p w1 of
             ((out, err), w2) \<Rightarrow>
               (if truthy err then (Inl (Exception (py_str err)), w2)
                else
                  (case re_search_jobid out of
                     Inl e \<Rightarrow> (Inl e, w2)
                   | Inr (Some ds) \<Rightarrow> (Inr (int_of_digits ds), w2)
                   | Inr None \<Rightarrow>
                       (Inl (Exception (''** Couldn't parse ouput: '' @ redStr pw (py_str out))),
                        w2)))))"

definition launch ::
  "pwenv \<Rightarrow> (string \<Rightarrow> proc) \<Rightarrow> Protocol \<Rightarrow> bool \<Rightarrow> world \<Rightarrow> (error + int \<times> Protocol) \<times> world" where
  "launch pw sh protocol wait w =
     (case (if isLocal protocol then launchLocal pw sh protocol wait w
            else launchRemote pw sh protocol wait w) of
        (Inl e, w1) \<Rightarrow> (Inl e, w1)
      | (Inr jobId, w1) \<Rightarrow> (Inr (jobId, setJobId jobId protocol), w1))"

text \<open>The test of the \<^verbatim>\<open>if\<close> in \<^verbatim>\<open>_stopLocal\<close>.\<close>

definition stop_queue_test :: "Protocol \<Rightarrow> bool" where
  "stop_queue_test protocol = (useQueue protocol \<and> \<not> isScheduled protocol)"

definition stopLocal :: "pwenv \<Rightarrow> (string \<Rightarrow> proc) \<Rightarrow> Protocol \<Rightarrow> world \<Rightarrow> (error + unit) \<times> world" where
  "stopLocal pw sh protocol w =
     (if stop_queue_test protocol then
        (let jobId = getJobId protocol;
             host = getHostConfig protocol
         in case fmt (getCancelCommand host) [''JOB_ID'' \<mapsto> PInt jobId] of
              Inl e \<Rightarrow> (Inl e, w)
            | Inr cancelCmd \<Rightarrow>
                (case run pw sh cancelCmd True w of (j, w1) \<Rightarrow> (Inr (), w1)))
      else (Inr (), emit (KillWithChilds (getPid protocol)) w))"

definition stopRemote :: "pwenv \<Rightarrow> (string \<Rightarrow> proc) \<Rightarrow> Protocol \<Rightarrow> world \<Rightarrow> (error + unit) \<times> world" where
  "stopRemote pw sh protocol w =
     (case runRemote pw sh protocol ''stop'' w of
        (Inl e, w1) \<Rightarrow> (Inl e, w1)
      | (Inr p, w1) \<Rightarrow> (Inr (), w1))"

definition stop :: "pwenv \<Rightarrow> (string \<Rightarrow> proc) \<Rightarrow> Protocol \<Rightarrow> world \<Rightarrow> (error + unit) \<times> world" where
  "stop pw sh protocol w =
     (if isLocal protocol then stopLocal pw sh protocol w else stopRemote pw sh protocol w)"

section \<open>Derived descriptions and concrete inputs\<close>

text \<open>
  The command line that \<^verbatim>\<open>_runRemote\<close> obtains from its template, written out. It is
  proved below to be what the formatting yields; it is not used by the model.
\<close>

definition remote_cmd :: "Protocol \<Rightarrow> string \<Rightarrow> string" where
  "remote_cmd protocol mode =
     ''ssh '' @ getAddress (getHostConfig protocol) @ '' '' @ QUOTE @
     getScipionHome (getHostConfig protocol) @ ''/scipion '' @
     (case getScipionConfig (getHostConfig protocol) of
        None \<Rightarrow> [] | Some c \<Rightarrow> ''--config '' @ c @ '' '') @
     ''runprotocol pw_protocol_remote.py '' @ mode @ '' '' @
     basename (getProjectPath protocol) @ '' '' @ getDbPath protocol @ '' '' @
     str_int (getObjId protocol) @ QUOTE @ '' ''"

definition PW0 :: pwenv where
  "PW0 = \<lparr>PYTHON = ''python'', APPS = ''apps'', UNKNOWN_JOBID = - 1,
          greenStr = (\<lambda>s. s), redStr = (\<lambda>s. s)\<rparr>"

definition W0 :: world where
  "W0 = \<lparr>dirs = {''logs''}, files = Map.empty, trace = []\<rparr>"

definition HOST_LOCAL :: HostConfig where
  "HOST_LOCAL =
     \<lparr>getAddress = [], getScipionHome = ''/opt/scipion'', getScipionConfig = None,
      getSubmitTemplate = ''%(JOB_COMMAND)s'', getSubmitCommand = ''qsub %(JOB_SCRIPT)s'',
      getCancelCommand = ''qdel %(JOB_ID)s'', getQueuesDefault = Map.empty\<rparr>"

definition HOST_REMOTE :: HostConfig where
  "HOST_REMOTE = HOST_LOCAL\<lparr>getAddress := ''cluster.example.org''\<rparr>"

definition HOST_BADCMD :: HostConfig where
  "HOST_BADCMD = HOST_LOCAL\<lparr>getSubmitCommand := ''qsub -q %(QUEUE)s %(JOB_SCRIPT)s''\<rparr>"

definition HOST_BADTPL :: HostConfig where
  "HOST_BADTPL = HOST_LOCAL\<lparr>getSubmitTemplate := ''#PBS -q %(QUEUE)s''\<rparr>"

definition D0 :: "string \<rightharpoonup> pyval" where
  "D0 = [''JOB_SCRIPT'' \<mapsto> PStr ''logs/7.job'', ''JOB_COMMAND'' \<mapsto> PStr ''python run.py'']"

definition D_NODIR :: "string \<rightharpoonup> pyval" where
  "D_NODIR = [''JOB_SCRIPT'' \<mapsto> PStr ''runs/7.job'', ''JOB_COMMAND'' \<mapsto> PStr ''python run.py'']"

definition JOB_Q :: Protocol where
  "JOB_Q =
     \<lparr>getHostName = ''localhost'', getHostConfig = HOST_LOCAL, useQueue = True,
      getSubmitDict = [''JOB_SCRIPT'' \<mapsto> PStr ''logs/7.job'', ''QUEUE_FOR_JOBS'' \<mapsto> PStr ''N''],
      isScheduled = False, getJobId = 555, getPid = 31337,
      getProjectPath = ''/data/projects/demo'', getDbPath = ''Runs/000007/logs/run.db'',
      getObjId = 7\<rparr>"

definition JOB_Y :: Protocol where
  "JOB_Y = JOB_Q\<lparr>getSubmitDict :=
             [''JOB_SCRIPT'' \<mapsto> PStr ''logs/7.job'', ''QUEUE_FOR_JOBS'' \<mapsto> PStr ''Y'']\<rparr>"

definition JOB_S :: Protocol where
  "JOB_S = JOB_Q\<lparr>isScheduled := True\<rparr>"

definition JOB_R :: Protocol where
  "JOB_R = JOB_Q\<lparr>getHostName := ''cluster'', getHostConfig := HOST_REMOTE, useQueue := False\<rparr>"

definition JOB_X :: Protocol where
  "JOB_X = JOB_Q\<lparr>getHostName := ''cluster'', useQueue := False\<rparr>"

definition SH_OK :: "string \<Rightarrow> proc" where
  "SH_OK cmd = \<lparr>proc_pid = 4242, proc_stdout = ''Launched job with id 12345'' @ NL,
                proc_stderr = [], proc_returncode = 0\<rparr>"

definition SH_987 :: "string \<Rightarrow> proc" where
  "SH_987 cmd = \<lparr>proc_pid = 4242, proc_stdout = ''Scipion remote jobid: 987'' @ NL,
                 proc_stderr = [], proc_returncode = 0\<rparr>"

definition SH_DENIED :: "string \<Rightarrow> proc" where
  "SH_DENIED cmd = \<lparr>proc_pid = 4242, proc_stdout = ''Scipion remote jobid: 987'' @ NL,
                    proc_stderr = ''permission denied'', proc_returncode = 1\<rparr>"

definition SH_NOID :: "string \<Rightarrow> proc" where
  "SH_NOID cmd = \<lparr>proc_pid = 4242, proc_stdout = ''connection ok'' @ NL,
                  proc_stderr = [], proc_returncode = 0\<rparr>"

definition SH_LATIN1 :: "string \<Rightarrow> proc" where
  "SH_LATIN1 cmd = \<lparr>proc_pid = 4242,
                    proc_stdout = ''qsub: acc'' @ [CHR 0xE8] @ ''s refus'' @ [CHR 0xE9] @ NL,
                    proc_stderr = [], proc_returncode = 1\<rparr>"

section \<open>Facts about the built-ins and the remote command\<close>

lemma str_nat_small: "n < 10 \<Longrightarrow> str_nat n = [digit_char n]"
  by (simp add: str_nat.simps)

lemma str_nat_big: "\<not> n < 10 \<Longrightarrow> str_nat n = str_nat (n div 10) @ [digit_char n]"
  by (subst str_nat.simps) simp

lemma fmt_remote:
  "fmt (remote_template (getHostConfig p)) (remote_args p mode) = Inr (remote_cmd p mode)"
  by (cases "getScipionConfig (getHostConfig p)")
     (simp_all add: fmt_def remote_template_def remote_args_def remote_cmd_def QUOTE_def)

lemma runRemote_eq:
  "runRemote pw sh p mode w =
     (Inr \<lparr>child = sh (remote_cmd p mode), stdout_piped = True, stderr_piped = False\<rparr>,
      emit (Spawn (remote_cmd p mode))
        (emit (Print (''** Running remote: '' @ greenStr pw (remote_cmd p mode))) w))"
  by (simp add: runRemote_def fmt_remote Popen_def)

lemma launchRemote_eq:
  "launchRemote pw sh p wait w =
     (Inl (TypeError ''cannot use a string pattern on a bytes-like object''),
      emit (WaitExit (proc_pid (sh (remote_cmd p ''run''))))
        (emit (Spawn (remote_cmd p ''run''))
           (emit (Print (''** Running remote: '' @ greenStr pw (remote_cmd p ''run''))) w)))"
  by (simp add: launchRemote_def runRemote_eq communicate_def)

lemma stopRemote_eq:
  "stopRemote pw sh p w =
     (Inr (),
      emit (Spawn (remote_cmd p ''stop''))
        (emit (Print (''** Running remote: '' @ greenStr pw (remote_cmd p ''stop''))) w))"
  by (simp add: stopRemote_def runRemote_eq)

lemma match_here_None_iff:
  "match_jobid_here s = None \<longleftrightarrow> (\<forall>d post. s = REMOTE_MARKER @ d # post \<longrightarrow> \<not> isdigit d)"
proof
  assume h: "match_jobid_here s = None"
  show "\<forall>d post. s = REMOTE_MARKER @ d # post \<longrightarrow> \<not> isdigit d"
  proof (intro allI impI notI)
    fix d post assume "s = REMOTE_MARKER @ d # post" and "isdigit d"
    then have "match_jobid_here s \<noteq> None"
      by (simp add: match_jobid_here_def Let_def)
    with h show False by simp
  qed
next
  assume h: "\<forall>d post. s = REMOTE_MARKER @ d # post \<longrightarrow> \<not> isdigit d"
  show "match_jobid_here s = None"
  proof (rule ccontr)
    assume "match_jobid_here s \<noteq> None"
    then have t: "take (length REMOTE_MARKER) s = REMOTE_MARKER"
      and r: "takeWhile isdigit (drop (length REMOTE_MARKER) s) \<noteq> []"
      by (auto simp: match_jobid_here_def Let_def split: if_splits)
    from r obtain d post where dp: "drop (length REMOTE_MARKER) s = d # post" and "isdigit d"
      by (cases "drop (length REMOTE_MARKER) s") (auto split: if_splits)
    have "s = take (length REMOTE_MARKER) s @ drop (length REMOTE_MARKER) s" by simp
    with t dp have "s = REMOTE_MARKER @ d # post" by simp
    with h \<open>isdigit d\<close> show False by blast
  qed
qed

lemma search_jobid_None_iff:
  "search_jobid s = None \<longleftrightarrow> (\<forall>pre d post. s = pre @ REMOTE_MARKER @ d # post \<longrightarrow> \<not> isdigit d)"
proof (induction s)
  case Nil
  then show ?case by (simp add: REMOTE_MARKER_def)
next
  case (Cons c cs)
  have "search_jobid (c # cs) = None \<longleftrightarrow> match_jobid_here (c # cs) = None \<and> search_jobid cs = None"
    by (simp split: option.split)
  also have "\<dots> \<longleftrightarrow> (\<forall>d post. c # cs = REMOTE_MARKER @ d # post \<longrightarrow> \<not> isdigit d) \<and>
                     (\<forall>pre d post. cs = pre @ REMOTE_MARKER @ d # post \<longrightarrow> \<not> isdigit d)"
    by (simp only: match_here_None_iff Cons.IH)
  also have "\<dots> \<longleftrightarrow> (\<forall>pre d post. c # cs = pre @ REMOTE_MARKER @ d # post \<longrightarrow> \<not> isdigit d)"
  proof (intro iffI allI impI)
    fix pre d post
    assume a: "(\<forall>d post. c # cs = REMOTE_MARKER @ d # post \<longrightarrow> \<not> isdigit d) \<and>
               (\<forall>pre d post. cs = pre @ REMOTE_MARKER @ d # post \<longrightarrow> \<not> isdigit d)"
      and e: "c # cs = pre @ REMOTE_MARKER @ d # post"
    show "\<not> isdigit d"
    proof (cases pre)
      case Nil
      with a e show ?thesis by simp
    next
      case (Cons x pre')
      with e have "cs = pre' @ REMOTE_MARKER @ d # post" by simp
      with a show ?thesis by blast
    qed
  next
    assume a: "\<forall>pre d post. c # cs = pre @ REMOTE_MARKER @ d # post \<longrightarrow> \<not> isdigit d"
    show "(\<forall>d post. c # cs = REMOTE_MARKER @ d # post \<longrightarrow> \<not> isdigit d) \<and>
          (\<forall>pre d post. cs = pre @ REMOTE_MARKER @ d # post \<longrightarrow> \<not> isdigit d)"
    proof (intro conjI allI impI)
      fix d post assume "c # cs = REMOTE_MARKER @ d # post"
      then have "c # cs = [] @ REMOTE_MARKER @ d # post" by simp
      with a show "\<not> isdigit d" by blast
    next
      fix pre d post assume "cs = pre @ REMOTE_MARKER @ d # post"
      then have "c # cs = (c # pre) @ REMOTE_MARKER @ d # post" by simp
      with a show "\<not> isdigit d" by blast
    qed
  qed
  finally show ?case .
qed

lemma match_here_Some:
  assumes "match_jobid_here s = Some r"
  shows "\<exists>post. s = REMOTE_MARKER @ r @ post \<and> r \<noteq> [] \<and> list_all isdigit r \<and>
                (post = [] \<or> \<not> isdigit (hd post))"
proof -
  let ?rest = "drop (length REMOTE_MARKER) s"
  from assms have t: "take (length REMOTE_MARKER) s = REMOTE_MARKER"
    and r: "r = takeWhile isdigit ?rest" and ne: "r \<noteq> []"
    by (auto simp: match_jobid_here_def Let_def split: if_splits)
  have "s = take (length REMOTE_MARKER) s @ ?rest" by simp
  with t have "s = REMOTE_MARKER @ ?rest" by simp
  moreover have "?rest = r @ dropWhile isdigit ?rest" using r by simp
  ultimately have "s = REMOTE_MARKER @ r @ dropWhile isdigit ?rest" by simp
  moreover have "list_all isdigit r"
    using r by (auto simp: list_all_iff dest: set_takeWhileD)
  moreover have "dropWhile isdigit ?rest = [] \<or> \<not> isdigit (hd (dropWhile isdigit ?rest))"
    using hd_dropWhile [of isdigit ?rest] by blast
  ultimately show ?thesis using ne by blast
qed

lemma search_jobid_Some:
  "search_jobid s = Some r \<Longrightarrow>
   \<exists>pre post. s = pre @ REMOTE_MARKER @ r @ post \<and> r \<noteq> [] \<and> list_all isdigit r \<and>
     (post = [] \<or> \<not> isdigit (hd post)) \<and>
     (\<forall>pre' d post'. s = pre' @ REMOTE_MARKER @ d # post' \<and> isdigit d \<longrightarrow> length pre \<le> length pre')"
proof (induction s)
  case Nil
  then show ?case by simp
next
  case (Cons c cs)
  show ?case
  proof (cases "match_jobid_here (c # cs)")
    case (Some r')
    with Cons.prems have "r' = r" by simp
    with Some obtain post where "c # cs = REMOTE_MARKER @ r @ post" "r \<noteq> []" "list_all isdigit r"
      "post = [] \<or> \<not> isdigit (hd post)"
      using match_here_Some by blast
    then have "c # cs = [] @ REMOTE_MARKER @ r @ post \<and> r \<noteq> [] \<and> list_all isdigit r \<and>
      (post = [] \<or> \<not> isdigit (hd post)) \<and>
      (\<forall>pre' d post'. c # cs = pre' @ REMOTE_MARKER @ d # post' \<and> isdigit d \<longrightarrow> length ([]::string) \<le> length pre')"
      by simp
    then show ?thesis by blast
  next
    case None
    with Cons.prems have "search_jobid cs = Some r" by simp
    from Cons.IH [OF this] obtain pre post where
      d: "cs = pre @ REMOTE_MARKER @ r @ post" "r \<noteq> []" "list_all isdigit r"
         "post = [] \<or> \<not> isdigit (hd post)"
      and lm: "\<forall>pre' d post'. cs = pre' @ REMOTE_MARKER @ d # post' \<and> isdigit d \<longrightarrow> length pre \<le> length pre'"
      by blast
    have "\<forall>pre' d post'. c # cs = pre' @ REMOTE_MARKER @ d # post' \<and> isdigit d \<longrightarrow>
            length (c # pre) \<le> length pre'"
    proof (intro allI impI)
      fix pre' d post'
      assume a: "c # cs = pre' @ REMOTE_MARKER @ d # post' \<and> isdigit d"
      show "length (c # pre) \<le> length pre'"
      proof (cases pre')
        case Nil
        with a None show ?thesis by (simp add: match_here_None_iff)
      next
        case (Cons x pre'')
        with a have "cs = pre'' @ REMOTE_MARKER @ d # post' \<and> isdigit d" by simp
        with lm have "length pre \<le> length pre''" by blast
        with Cons show ?thesis by simp
      qed
    qed
    moreover from d have "c # cs = (c # pre) @ REMOTE_MARKER @ r @ post" by simp
    ultimately show ?thesis using d by blast
  qed
qed

lemma digit_val_nonneg: "0 \<le> digit_val c"
  by simp

lemma int_of_digits_nonneg_aux: "0 \<le> a \<Longrightarrow> 0 \<le> foldl (\<lambda>a c. 10 * a + digit_val c) a ds"
proof (induction ds arbitrary: a)
  case Nil
  then show ?case by simp
next
  case (Cons c ds)
  have "0 \<le> 10 * a + digit_val c"
    using Cons.prems digit_val_nonneg [of c] by linarith
  from Cons.IH [OF this] show ?case by (simp del: digit_val.simps)
qed

lemma int_of_digits_nonneg: "0 \<le> int_of_digits ds"
  unfolding int_of_digits_def by (rule int_of_digits_nonneg_aux) simp

text \<open>
  Formatting is compositional over a prefix that formats completely, and a keyed conversion
  whose key is absent from the mapping raises \<^verbatim>\<open>KeyError\<close> with that key.
\<close>

lemma fmt_go_append:
  "fmt_go d st out pre = Inr out' \<Longrightarrow> fmt_go d st out (pre @ rest) = fmt_go d Lit out' rest"
  by (induction d st out pre rule: fmt_go.induct)
     (auto split: if_splits nat.splits option.splits pyval.splits)

lemma fmt_go_key:
  "CHR ''('' \<notin> set k \<Longrightarrow> CHR '')'' \<notin> set k \<Longrightarrow>
   fmt_go d (Key 0 acc) out (k @ CHR '')'' # rest) =
     (case d (acc @ k) of None \<Rightarrow> Inl (KeyError (acc @ k)) | Some v \<Rightarrow> fmt_go d (Conv v) out rest)"
  by (induction k arbitrary: acc) (auto split: option.split)

lemma fmt_absent_placeholder:
  assumes "fmt pre d = Inr out" and "CHR ''('' \<notin> set k" and "CHR '')'' \<notin> set k" and "d k = None"
  shows "fmt (pre @ ''%('' @ k @ '')'' @ rest) d = Inl (KeyError k)"
proof -
  from assms(1) have "fmt (pre @ ''%('' @ k @ '')'' @ rest) d = fmt_go d Lit out (''%('' @ k @ '')'' @ rest)"
    by (simp add: fmt_def fmt_go_append)
  also have "\<dots> = fmt_go d (Key 0 []) out (k @ CHR '')'' # rest)" by simp
  also have "\<dots> = Inl (KeyError k)" using assms(2-4) by (simp add: fmt_go_key)
  finally show ?thesis .
qed

section \<open>Facts about the queue submission\<close>

lemma open_w_Inr:
  assumes "open_w path w = Inr w1"
  shows "w1 = w\<lparr>files := (files w)(path \<mapsto> []), trace := trace w @ [FileOpen path]\<rparr>"
    and "dirname path = [] \<or> dirname path \<in> dirs w"
  using assms by (auto simp: open_w_def emit_def split: if_splits)

lemma persist_steps:
  assumes "open_w path w = Inr w1"
  shows "file_close path (file_write path text (makeFilePath path w1)) =
           w\<lparr>files := (files w)(path \<mapsto> text),
             trace := trace w @ [FileOpen path, FileWrite path text, FileClose path]\<rparr>"
  using open_w_Inr [OF assms]
  by (auto simp: makeFilePath_def file_write_def file_close_def emit_def Let_def)

lemma submit_render_fails:
  "fmt (getSubmitTemplate h) d = Inl e \<Longrightarrow> submit pw sh h d w = (Inl e, w)"
  by (simp add: submit_def)

lemma submit_open_fails:
  "fmt (getSubmitTemplate h) d = Inr text \<Longrightarrow> d ''JOB_SCRIPT'' = Some (PStr path) \<Longrightarrow>
   open_w path w = Inl e \<Longrightarrow> submit pw sh h d w = (Inl e, w)"
  by (simp add: submit_def)

lemma submit_command_fails:
  assumes "fmt (getSubmitTemplate h) d = Inr text" and "d ''JOB_SCRIPT'' = Some (PStr path)"
    and "open_w path w = Inr w1" and "fmt (getSubmitCommand h) d = Inl e"
  shows "submit pw sh h d w =
           (Inl e, w\<lparr>files := (files w)(path \<mapsto> text @ NL @ NL),
                     trace := trace w @ [FileOpen path, FileWrite path (text @ NL @ NL),
                                         FileClose path]\<rparr>)"
  using assms persist_steps [OF assms(3), of "text @ NL @ NL"]
  by (simp add: submit_def Let_def)

lemma submit_spawned:
  assumes "fmt (getSubmitTemplate h) d = Inr text" and "d ''JOB_SCRIPT'' = Some (PStr path)"
    and "open_w path w = Inr w1" and "fmt (getSubmitCommand h) d = Inr command"
  shows "\<exists>post. (post = [] \<or> (\<exists>msg. post = [Print msg])) \<and>
           snd (submit pw sh h d w) =
             w\<lparr>files := (files w)(path \<mapsto> text @ NL @ NL),
               trace := trace w @ [FileOpen path, FileWrite path (text @ NL @ NL), FileClose path,
                          Print (''** Submitting to queue: '' @ QUOTE @ greenStr pw command @ QUOTE),
                          Spawn command, WaitExit (proc_pid (sh command))] @ post\<rparr>"
  using assms persist_steps [OF assms(3), of "text @ NL @ NL"]
  by (auto simp: submit_def Let_def Popen_def communicate_def emit_def
           split: option.splits sum.splits)

lemma submit_returns_after_spawn:
  assumes "fmt (getSubmitTemplate h) d = Inr text" and "fst (submit pw sh h d w) = Inr j"
  shows "\<exists>path w1 command. d ''JOB_SCRIPT'' = Some (PStr path) \<and> open_w path w = Inr w1 \<and>
           fmt (getSubmitCommand h) d = Inr command"
  using assms
  by (auto simp: submit_def Let_def Popen_def communicate_def
           split: option.splits sum.splits pyval.splits prod.splits)

lemma submit_spawn_needs_script:
  assumes "fmt (getSubmitTemplate h) d = Inr text"
    and "Spawn cmd \<in> set (drop (length (trace w)) (trace (snd (submit pw sh h d w))))"
  shows "\<exists>path w1 command. d ''JOB_SCRIPT'' = Some (PStr path) \<and> open_w path w = Inr w1 \<and>
           fmt (getSubmitCommand h) d = Inr command"
proof (cases "d ''JOB_SCRIPT''")
  case None
  with assms show ?thesis by (simp add: submit_def)
next
  case (Some v)
  show ?thesis
  proof (cases v)
    case (PStr path)
    show ?thesis
    proof (cases "open_w path w")
      case (Inl e)
      with assms Some PStr show ?thesis by (simp add: submit_open_fails)
    next
      case (Inr w1)
      show ?thesis
      proof (cases "fmt (getSubmitCommand h) d")
        case (Inl e)
        from Some PStr have js: "d ''JOB_SCRIPT'' = Some (PStr path)" by simp
        from submit_command_fails [OF assms(1) js Inr Inl] assms(2)
        show ?thesis by simp
      next
        case (Inr command)
        with Some PStr \<open>open_w path w = Inr w1\<close> show ?thesis by blast
      qed
    qed
  next
    case (PInt i)
    with assms Some show ?thesis by (simp add: submit_def)
  next
    case (PBytes b)
    with assms Some show ?thesis by (simp add: submit_def)
  next
    case PNone
    with assms Some show ?thesis by (simp add: submit_def)
  qed
qed

lemmas eval_defs =
  submit_def fmt_def open_w_def dirname_def makeFilePath_def file_write_def file_close_def
  emit_def Popen_def communicate_def search_digits_def isdigit_def int_of_digits_def
  bytes_repr_def hexdigit_def cont_byte_def run_def Let_def NL_def QUOTE_def

lemmas example_defs =
  PW0_def W0_def HOST_LOCAL_def HOST_REMOTE_def HOST_BADCMD_def HOST_BADTPL_def D0_def D_NODIR_def
  JOB_Q_def JOB_Y_def JOB_S_def JOB_R_def JOB_X_def SH_OK_def SH_987_def SH_DENIED_def
  SH_NOID_def SH_LATIN1_def

lemma submit_ignores_address:
  "submit pw sh (h\<lparr>getAddress := a\<rparr>) d w = submit pw sh h d w"
  by (simp add: submit_def Let_def split: sum.split option.split pyval.split)

lemma launchLocal_ignores_address:
  "launchLocal pw sh (p\<lparr>getHostConfig := (getHostConfig p)\<lparr>getAddress := a\<rparr>\<rparr>) wait w =
   launchLocal pw sh p wait w"
  by (simp add: launchLocal_def launch_queue_test_def protocol_command_def strId_def
      submit_ignores_address Let_def split: sum.split bool.split option.split)

lemma submit_example_job_id:
  "fst (submit PW0 SH_OK HOST_LOCAL D0 W0) = Inr 12345"
  by (simp add: eval_defs example_defs)

text \<open>
  What a submission returns once its command has been rendered: the digits found in the
  printed form of the output when the exit status is zero, otherwise the sentinel when
  the output decodes and the decoding error when it does not.
\<close>

lemma submit_result:
  assumes "fmt (getSubmitTemplate h) d = Inr text" and "d ''JOB_SCRIPT'' = Some (PStr path)"
    and "open_w path w = Inr w1" and "fmt (getSubmitCommand h) d = Inr command"
  shows "fst (submit pw sh h d w) =
     (case (if proc_returncode (sh command) = 0
            then search_digits (bytes_repr (proc_stdout (sh command))) else None) of
        Some ds \<Rightarrow> Inr (int_of_digits ds)
      | None \<Rightarrow>
          (if utf8_valid (map of_char (proc_stdout (sh command)))
           then Inr (UNKNOWN_JOBID pw)
           else Inl (UnicodeDecodeError (proc_stdout (sh command)))))"
  using assms
  by (simp add: submit_def Let_def Popen_def communicate_def split: option.split sum.split)

text \<open>
  A defect of \<^verbatim>\<open>_stopLocal\<close>, which tests the queue-request flag without the
  \<^verbatim>\<open>QUEUE_FOR_JOBS\<close> entry that \<^verbatim>\<open>_launchLocal\<close> tests. \<open>JOB_Y\<close> requests the queue
  with \<^verbatim>\<open>QUEUE_FOR_JOBS = "Y"\<close>: launch runs its command directly and stores the pid; stop
  then hands that pid to the queue's cancel command and kills nothing.
\<close>

lemma direct_launch_then_queue_cancel:
  "launch PW0 SH_OK JOB_Y False W0 =
     (Inr (4242, setJobId 4242 JOB_Y),
      W0\<lparr>trace := [Print (''** Running command: '' @ QUOTE @ protocol_command PW0 JOB_Y @ QUOTE),
                   Spawn (protocol_command PW0 JOB_Y)]\<rparr>) \<and>
   trace (snd (stop PW0 SH_OK (setJobId 4242 JOB_Y) W0)) =
     [Print (''** Running command: '' @ QUOTE @ ''qdel 4242'' @ QUOTE),
      Spawn ''qdel 4242'', WaitExit 4242]"
  by (simp add: launch_def launchLocal_def launch_queue_test_def stop_def stopLocal_def
      stop_queue_test_def isLocal_def LOCALHOST_def setJobId_def run_def Popen_def emit_def
      fmt_def str_int_def str_nat_small str_nat_big digit_char_def Let_def
      JOB_Y_def JOB_Q_def HOST_LOCAL_def PW0_def W0_def SH_OK_def)

lemma protocol_command_example:
  "protocol_command PW0 JOB_Q =
     ''python apps/pw_protocol_run.py \"/data/projects/demo\" \"Runs/000007/logs/run.db\" 7''"
  by (simp add: protocol_command_def path_join_def strId_def str_int_def str_nat_small
      digit_char_def PW0_def JOB_Q_def)

lemma remote_cmd_example:
  "remote_cmd JOB_R ''run'' =
     ''ssh cluster.example.org '' @ QUOTE @
     ''/opt/scipion/scipion runprotocol pw_protocol_remote.py run demo Runs/000007/logs/run.db 7'' @
     QUOTE @ '' ''"
  by (simp add: remote_cmd_def basename_def str_int_def str_nat_small digit_char_def
      JOB_R_def JOB_Q_def HOST_REMOTE_def HOST_LOCAL_def)

text \<open>The three branches of launch and the three branches of stop, by their effects.\<close>

lemma run_eq:
  "run pw sh command wait w =
     (proc_pid (sh command),
      w\<lparr>trace := trace w @
           Print (''** Running command: '' @ QUOTE @ greenStr pw command @ QUOTE) #
           Spawn command # (if wait then [WaitExit (proc_pid (sh command))] else [])\<rparr>)"
  by (simp add: run_def Popen_def emit_def Let_def)

lemma launch_local_queued:
  assumes "getHostName p = ''localhost''" and "useQueue p"
    and "getSubmitDict p ''QUEUE_FOR_JOBS'' = Some (PStr ''N'')"
  shows "launch pw sh p wait w =
     (case submit pw sh (getHostConfig p)
             ((getQueuesDefault (getHostConfig p) ++ getSubmitDict p)
                (''JOB_COMMAND'' \<mapsto> PStr (protocol_command pw p))) w of
        (Inl e, w1) \<Rightarrow> (Inl e, w1)
      | (Inr jobId, w1) \<Rightarrow> (Inr (jobId, setJobId jobId p), w1))"
  using assms
  by (simp add: launch_def isLocal_def LOCALHOST_def launchLocal_def launch_queue_test_def Let_def)

lemma launch_local_direct:
  assumes "getHostName p = ''localhost''"
    and "\<not> useQueue p \<or> (\<exists>v. getSubmitDict p ''QUEUE_FOR_JOBS'' = Some v \<and> v \<noteq> PStr ''N'')"
  shows "launch pw sh p wait w =
     (Inr (proc_pid (sh (protocol_command pw p)),
           setJobId (proc_pid (sh (protocol_command pw p))) p),
      w\<lparr>trace := trace w @
           Print (''** Running command: '' @ QUOTE @ greenStr pw (protocol_command pw p) @ QUOTE) #
           Spawn (protocol_command pw p) #
           (if wait then [WaitExit (proc_pid (sh (protocol_command pw p)))] else [])\<rparr>)"
  using assms
  by (auto simp: launch_def isLocal_def LOCALHOST_def launchLocal_def launch_queue_test_def
      run_eq Let_def)

lemma launch_local_no_key:
  assumes "getHostName p = ''localhost''" and "useQueue p"
    and "getSubmitDict p ''QUEUE_FOR_JOBS'' = None"
  shows "launch pw sh p wait w = (Inl (KeyError ''QUEUE_FOR_JOBS''), w)"
  using assms
  by (simp add: launch_def isLocal_def LOCALHOST_def launchLocal_def launch_queue_test_def Let_def)

lemma launch_remote:
  assumes "getHostName p \<noteq> ''localhost''"
  shows "launch pw sh p wait w =
     (case launchRemote pw sh p wait w of
        (Inl e, w1) \<Rightarrow> (Inl e, w1)
      | (Inr jobId, w1) \<Rightarrow> (Inr (jobId, setJobId jobId p), w1))"
    and "trace (snd (launch pw sh p wait w)) =
           trace w @ [Print (''** Running remote: '' @ greenStr pw (remote_cmd p ''run'')),
                      Spawn (remote_cmd p ''run''),
                      WaitExit (proc_pid (sh (remote_cmd p ''run'')))]"
  using assms
  by (simp_all add: launch_def isLocal_def LOCALHOST_def launchRemote_eq emit_def)

lemma stop_local_cancel:
  assumes "getHostName p = ''localhost''" and "useQueue p" and "\<not> isScheduled p"
  shows "stop pw sh (setJobId j p) w =
     (case fmt (getCancelCommand (getHostConfig p)) [''JOB_ID'' \<mapsto> PInt j] of
        Inl e \<Rightarrow> (Inl e, w)
      | Inr cancelCmd \<Rightarrow>
          (Inr (),
           w\<lparr>trace := trace w @
                [Print (''** Running command: '' @ QUOTE @ greenStr pw cancelCmd @ QUOTE),
                 Spawn cancelCmd, WaitExit (proc_pid (sh cancelCmd))]\<rparr>))"
  using assms
  by (simp add: stop_def isLocal_def LOCALHOST_def stopLocal_def stop_queue_test_def setJobId_def
      run_eq Let_def split: sum.split)

lemma stop_local_kill:
  assumes "getHostName p = ''localhost''" and "\<not> useQueue p \<or> isScheduled p"
  shows "stop pw sh (setJobId j p) w = (Inr (), w\<lparr>trace := trace w @ [KillWithChilds (getPid p)]\<rparr>)"
  using assms
  by (auto simp: stop_def isLocal_def LOCALHOST_def stopLocal_def stop_queue_test_def setJobId_def
      emit_def)

lemma remote_cmd_setJobId: "remote_cmd (setJobId j p) mode = remote_cmd p mode"
  by (simp add: remote_cmd_def setJobId_def)

lemma stop_remote:
  assumes "getHostName p \<noteq> ''localhost''"
  shows "stop pw sh (setJobId j p) w =
     (Inr (),
      w\<lparr>trace := trace w @ [Print (''** Running remote: '' @ greenStr pw (remote_cmd p ''stop'')),
                            Spawn (remote_cmd p ''stop'')]\<rparr>)"
proof -
  have "getHostName (setJobId j p) \<noteq> ''localhost''"
    using assms by (simp add: setJobId_def)
  then show ?thesis
    by (simp add: stop_def isLocal_def LOCALHOST_def stopRemote_eq remote_cmd_setJobId emit_def)
qed

text \<open>
  The search that \<^verbatim>\<open>_launchRemote\<close> intends finds the job id in text and refuses bytes,
  which is what the pipe returns.
\<close>

lemma re_search_jobid_text_and_bytes:
  "re_search_jobid (PStr (''Scipion remote jobid: 987'' @ NL)) = Inr (Some ''987'') \<and>
   int_of_digits ''987'' = 987 \<and>
   re_search_jobid (PBytes (''Scipion remote jobid: 987'' @ NL)) =
     Inl (TypeError ''cannot use a string pattern on a bytes-like object'')"
  by (simp add: NL_def match_jobid_here_def REMOTE_MARKER_def isdigit_def int_of_digits_def)

section \<open>The claims\<close>

subsection \<open>C1: launch and stop select the same branch\<close>

text \<open>
  Counterexample to C1 as stated. \<open>JOB_S\<close> is local, requests the queue with
  \<^verbatim>\<open>QUEUE_FOR_JOBS = "N"\<close> and is scheduled: launch submits it to the queue, and stop, on
  the same host configuration and flag, does not tell the queue to cancel but kills the
  process tree of the pid.
\<close>

theorem launch_queues_stop_kills_scheduled:
  "launch_queue_test JOB_S = Inr True \<and> stop_queue_test (setJobId 12345 JOB_S) = False \<and>
   fst (launch PW0 SH_OK JOB_S False W0) = Inr (12345, setJobId 12345 JOB_S) \<and>
   Spawn ''qsub logs/7.job'' \<in> set (trace (snd (launch PW0 SH_OK JOB_S False W0))) \<and>
   stop PW0 SH_OK (setJobId 12345 JOB_S) W0 = (Inr (), W0\<lparr>trace := [KillWithChilds 31337]\<rparr>)"
  by (simp add: launch_def launchLocal_def launch_queue_test_def stop_def stopLocal_def
      stop_queue_test_def isLocal_def LOCALHOST_def setJobId_def protocol_command_def
      eval_defs example_defs)

text \<open>
  C1, amended. For every job that, when it requests the queue, is not scheduled and has
  \<^verbatim>\<open>QUEUE_FOR_JOBS = "N"\<close>, launch and a later stop of the job (with whatever job id was
  stored) take the same branch. A local job that requests the queue is submitted by
  launch, and stop runs the queue's cancel command for the stored job id and waits for it.
  A local job that does not request the queue is run directly by launch, and stop kills
  the process tree of its pid. Any other job is dispatched through the remote shell by
  launch, in run mode, and by stop, in stop mode. Nothing is said of a job that requests
  the queue with another value of \<^verbatim>\<open>QUEUE_FOR_JOBS\<close>.
\<close>

theorem launch_stop_same_branch:
  assumes "useQueue p \<longrightarrow>
             \<not> isScheduled p \<and> getSubmitDict p ''QUEUE_FOR_JOBS'' = Some (PStr ''N'')"
  shows
    "(getHostName p = ''localhost'' \<and> useQueue p \<longrightarrow>
        launch pw sh p wait w =
          (case submit pw sh (getHostConfig p)
                  ((getQueuesDefault (getHostConfig p) ++ getSubmitDict p)
                     (''JOB_COMMAND'' \<mapsto> PStr (protocol_command pw p))) w of
             (Inl e, w1) \<Rightarrow> (Inl e, w1)
           | (Inr jobId, w1) \<Rightarrow> (Inr (jobId, setJobId jobId p), w1)) \<and>
        stop pw sh (setJobId j p) w' =
          (case fmt (getCancelCommand (getHostConfig p)) [''JOB_ID'' \<mapsto> PInt j] of
             Inl e \<Rightarrow> (Inl e, w')
           | Inr cancelCmd \<Rightarrow>
               (Inr (),
                w'\<lparr>trace := trace w' @
                      [Print (''** Running command: '' @ QUOTE @ greenStr pw cancelCmd @ QUOTE),
                       Spawn cancelCmd, WaitExit (proc_pid (sh cancelCmd))]\<rparr>))) \<and>
     (getHostName p = ''localhost'' \<and> \<not> useQueue p \<longrightarrow>
        launch pw sh p wait w =
          (Inr (proc_pid (sh (protocol_command pw p)),
                setJobId (proc_pid (sh (protocol_command pw p))) p),
           w\<lparr>trace := trace w @
                Print (''** Running command: '' @ QUOTE @ greenStr pw (protocol_command pw p) @ QUOTE) #
                Spawn (protocol_command pw p) #
                (if wait then [WaitExit (proc_pid (sh (protocol_command pw p)))] else [])\<rparr>) \<and>
        stop pw sh (setJobId j p) w' =
          (Inr (), w'\<lparr>trace := trace w' @ [KillWithChilds (getPid p)]\<rparr>)) \<and>
     (getHostName p \<noteq> ''localhost'' \<longrightarrow>
        trace (snd (launch pw sh p wait w)) =
          trace w @ [Print (''** Running remote: '' @ greenStr pw (remote_cmd p ''run'')),
                     Spawn (remote_cmd p ''run''),
                     WaitExit (proc_pid (sh (remote_cmd p ''run'')))] \<and>
        stop pw sh (setJobId j p) w' =
          (Inr (),
           w'\<lparr>trace := trace w' @
                 [Print (''** Running remote: '' @ greenStr pw (remote_cmd p ''stop'')),
                  Spawn (remote_cmd p ''stop'')]\<rparr>))"
proof (intro conjI impI)
  assume a: "getHostName p = ''localhost'' \<and> useQueue p"
  with assms have n: "\<not> isScheduled p"
    and q: "getSubmitDict p ''QUEUE_FOR_JOBS'' = Some (PStr ''N'')" by simp_all
  from a q show "launch pw sh p wait w =
          (case submit pw sh (getHostConfig p)
                  ((getQueuesDefault (getHostConfig p) ++ getSubmitDict p)
                     (''JOB_COMMAND'' \<mapsto> PStr (protocol_command pw p))) w of
             (Inl e, w1) \<Rightarrow> (Inl e, w1)
           | (Inr jobId, w1) \<Rightarrow> (Inr (jobId, setJobId jobId p), w1))"
    by (simp add: launch_local_queued)
  from a n show "stop pw sh (setJobId j p) w' =
          (case fmt (getCancelCommand (getHostConfig p)) [''JOB_ID'' \<mapsto> PInt j] of
             Inl e \<Rightarrow> (Inl e, w')
           | Inr cancelCmd \<Rightarrow>
               (Inr (),
                w'\<lparr>trace := trace w' @
                      [Print (''** Running command: '' @ QUOTE @ greenStr pw cancelCmd @ QUOTE),
                       Spawn cancelCmd, WaitExit (proc_pid (sh cancelCmd))]\<rparr>))"
    by (simp add: stop_local_cancel)
next
  assume a: "getHostName p = ''localhost'' \<and> \<not> useQueue p"
  then show "launch pw sh p wait w =
          (Inr (proc_pid (sh (protocol_command pw p)),
                setJobId (proc_pid (sh (protocol_command pw p))) p),
           w\<lparr>trace := trace w @
                Print (''** Running command: '' @ QUOTE @ greenStr pw (protocol_command pw p) @ QUOTE) #
                Spawn (protocol_command pw p) #
                (if wait then [WaitExit (proc_pid (sh (protocol_command pw p)))] else [])\<rparr>)"
    by (simp add: launch_local_direct)
  from a show "stop pw sh (setJobId j p) w' =
          (Inr (), w'\<lparr>trace := trace w' @ [KillWithChilds (getPid p)]\<rparr>)"
    by (simp add: stop_local_kill)
next
  assume a: "getHostName p \<noteq> ''localhost''"
  then show "trace (snd (launch pw sh p wait w)) =
          trace w @ [Print (''** Running remote: '' @ greenStr pw (remote_cmd p ''run'')),
                     Spawn (remote_cmd p ''run''),
                     WaitExit (proc_pid (sh (remote_cmd p ''run'')))]"
    by (rule launch_remote(2))
  from a show "stop pw sh (setJobId j p) w' =
          (Inr (),
           w'\<lparr>trace := trace w' @
                 [Print (''** Running remote: '' @ greenStr pw (remote_cmd p ''stop'')),
                  Spawn (remote_cmd p ''stop'')]\<rparr>)"
    by (rule stop_remote)
qed

text \<open>
  The amended C1 at \<open>JOB_Q\<close>, a queued local job that is not scheduled: launch submits
  it and returns the queue's id 12345, and stop runs \<^verbatim>\<open>qdel 12345\<close>.
\<close>

theorem launch_stop_same_branch_witness:
  "\<not> isScheduled JOB_Q \<and> getSubmitDict JOB_Q ''QUEUE_FOR_JOBS'' = Some (PStr ''N'') \<and>
   getHostName JOB_Q = ''localhost'' \<and> useQueue JOB_Q \<and>
   fst (launch PW0 SH_OK JOB_Q False W0) = Inr (12345, setJobId 12345 JOB_Q) \<and>
   stop PW0 SH_OK (setJobId 12345 JOB_Q) W0 =
     (Inr (),
      W0\<lparr>trace := [Print (''** Running command: '' @ QUOTE @ ''qdel 12345'' @ QUOTE),
                   Spawn ''qdel 12345'', WaitExit 4242]\<rparr>)"
proof -
  have h: "useQueue JOB_Q \<longrightarrow>
      \<not> isScheduled JOB_Q \<and> getSubmitDict JOB_Q ''QUEUE_FOR_JOBS'' = Some (PStr ''N'')"
    by (simp add: JOB_Q_def)
  have a: "getHostName JOB_Q = ''localhost'' \<and> useQueue JOB_Q"
    by (simp add: JOB_Q_def)
  have "fst (submit PW0 SH_OK (getHostConfig JOB_Q)
             ((getQueuesDefault (getHostConfig JOB_Q) ++ getSubmitDict JOB_Q)
                (''JOB_COMMAND'' \<mapsto> PStr (protocol_command PW0 JOB_Q))) W0) = Inr 12345"
    by (simp add: protocol_command_def eval_defs example_defs)
  then obtain w1 where s: "submit PW0 SH_OK (getHostConfig JOB_Q)
             ((getQueuesDefault (getHostConfig JOB_Q) ++ getSubmitDict JOB_Q)
                (''JOB_COMMAND'' \<mapsto> PStr (protocol_command PW0 JOB_Q))) W0 = (Inr 12345, w1)"
    by (cases "submit PW0 SH_OK (getHostConfig JOB_Q)
             ((getQueuesDefault (getHostConfig JOB_Q) ++ getSubmitDict JOB_Q)
                (''JOB_COMMAND'' \<mapsto> PStr (protocol_command PW0 JOB_Q))) W0") auto
  have c: "fmt (getCancelCommand (getHostConfig JOB_Q)) [''JOB_ID'' \<mapsto> PInt 12345] =
             Inr ''qdel 12345''"
    by (simp add: fmt_def JOB_Q_def HOST_LOCAL_def str_int_def str_nat_small str_nat_big
        digit_char_def)
  from launch_stop_same_branch [OF h, of PW0 SH_OK False W0 12345 W0,
      THEN conjunct1, THEN mp, OF a]
  have l: "launch PW0 SH_OK JOB_Q False W0 =
          (case submit PW0 SH_OK (getHostConfig JOB_Q)
                  ((getQueuesDefault (getHostConfig JOB_Q) ++ getSubmitDict JOB_Q)
                     (''JOB_COMMAND'' \<mapsto> PStr (protocol_command PW0 JOB_Q))) W0 of
             (Inl e, w1) \<Rightarrow> (Inl e, w1)
           | (Inr jobId, w1) \<Rightarrow> (Inr (jobId, setJobId jobId JOB_Q), w1))"
    and t: "stop PW0 SH_OK (setJobId 12345 JOB_Q) W0 =
          (case fmt (getCancelCommand (getHostConfig JOB_Q)) [''JOB_ID'' \<mapsto> PInt 12345] of
             Inl e \<Rightarrow> (Inl e, W0)
           | Inr cancelCmd \<Rightarrow>
               (Inr (),
                W0\<lparr>trace := trace W0 @
                      [Print (''** Running command: '' @ QUOTE @ greenStr PW0 cancelCmd @ QUOTE),
                       Spawn cancelCmd, WaitExit (proc_pid (SH_OK cancelCmd))]\<rparr>))"
    by simp_all
  from l s have "fst (launch PW0 SH_OK JOB_Q False W0) = Inr (12345, setJobId 12345 JOB_Q)"
    by simp
  moreover from t c have "stop PW0 SH_OK (setJobId 12345 JOB_Q) W0 =
     (Inr (),
      W0\<lparr>trace := [Print (''** Running command: '' @ QUOTE @ ''qdel 12345'' @ QUOTE),
                   Spawn ''qdel 12345'', WaitExit 4242]\<rparr>)"
    by (simp add: PW0_def W0_def SH_OK_def)
  moreover have "\<not> isScheduled JOB_Q \<and> getSubmitDict JOB_Q ''QUEUE_FOR_JOBS'' = Some (PStr ''N'')"
    by (simp add: JOB_Q_def)
  ultimately show ?thesis using a by blast
qed

subsection \<open>C2: remote stderr\<close>

text \<open>
  C2 fails on the code. \<^verbatim>\<open>_runRemote\<close> pipes only stdout, so \<^verbatim>\<open>communicate()\<close>
  returns \<^verbatim>\<open>None\<close> for stderr and the test \<^verbatim>\<open>if err\<close> never holds: with
  \<^verbatim>\<open>permission denied\<close> on the remote stderr the launch goes on to search stdout and
  ends in the \<^verbatim>\<open>TypeError\<close> of that search, not in an error that carries the stderr text.
\<close>

theorem launchRemote_ignores_stderr:
  "proc_stderr (SH_DENIED (remote_cmd JOB_R ''run'')) = ''permission denied'' \<and>
   fst (runRemote PW0 SH_DENIED JOB_R ''run'' W0) =
     Inr \<lparr>child = SH_DENIED (remote_cmd JOB_R ''run''), stdout_piped = True,
          stderr_piped = False\<rparr> \<and>
   snd (fst (communicate \<lparr>child = SH_DENIED (remote_cmd JOB_R ''run''), stdout_piped = True,
                          stderr_piped = False\<rparr> W0)) = PNone \<and>
   fst (launchRemote PW0 SH_DENIED JOB_R False W0) =
     Inl (TypeError ''cannot use a string pattern on a bytes-like object'')"
  by (simp add: launchRemote_eq runRemote_eq communicate_def SH_DENIED_def)

subsection \<open>C3: soft failure of a queue submission\<close>

text \<open>
  C3 fails on the code. The submission exits with status 1 and prints a message with two
  Latin-1 bytes; the branch that should print the warning and return the sentinel decodes
  the output first, and the decoding raises.
\<close>

theorem submit_warning_decode_raises:
  "fst (submit PW0 SH_LATIN1 HOST_LOCAL D0 W0) =
     Inl (UnicodeDecodeError (''qsub: acc'' @ [CHR 0xE8] @ ''s refus'' @ [CHR 0xE9] @ NL))"
  by (simp add: eval_defs example_defs)

subsection \<open>C4: the remote job id\<close>

text \<open>
  C4 fails on the code. With nothing on stderr and \<^verbatim>\<open>Scipion remote jobid: 987\<close> on
  stdout, the launch does not return 987: the pipe returns bytes, \<^verbatim>\<open>_launchRemote\<close>
  searches them with a pattern given as text, and the search raises \<^verbatim>\<open>TypeError\<close>.
  \<^verbatim>\<open>_submit\<close> converts with \<^verbatim>\<open>str(out)\<close> before it searches; \<^verbatim>\<open>_launchRemote\<close> does not.
\<close>

theorem launchRemote_searches_bytes:
  "proc_stderr (SH_987 (remote_cmd JOB_R ''run'')) = [] \<and>
   proc_stdout (SH_987 (remote_cmd JOB_R ''run'')) = ''Scipion remote jobid: 987'' @ NL \<and>
   fst (launchRemote PW0 SH_987 JOB_R False W0) =
     Inl (TypeError ''cannot use a string pattern on a bytes-like object'')"
  by (simp add: launchRemote_eq SH_987_def)

subsection \<open>C5: stopping a scheduled queued job\<close>

text \<open>
  Counterexample to C5 as stated: stopping the local, queued, scheduled job
  \<open>JOB_S\<close> kills the process tree of its pid.
\<close>

theorem stop_scheduled_queued_kills:
  "isLocal JOB_S \<and> useQueue JOB_S \<and> isScheduled JOB_S \<and>
   trace (snd (stop PW0 SH_OK JOB_S W0)) = [KillWithChilds 31337]"
  by (simp add: stop_def stopLocal_def stop_queue_test_def isLocal_def LOCALHOST_def emit_def
      JOB_S_def JOB_Q_def W0_def)

text \<open>
  C5, amended. For every local job that requested queue submission and is still
  scheduled, stop issues no queue cancellation command; its one effect is to kill the
  process tree rooted at the pid of the job.
\<close>

theorem stop_scheduled_queued_no_cancel:
  assumes "isLocal p" and "useQueue p" and "isScheduled p"
  shows "stop pw sh p w = (Inr (), w\<lparr>trace := trace w @ [KillWithChilds (getPid p)]\<rparr>)"
  using assms by (simp add: stop_def stopLocal_def stop_queue_test_def emit_def)

text \<open>
  The amended C5 at \<open>JOB_S\<close>.
\<close>

theorem stop_scheduled_queued_no_cancel_witness:
  "isLocal JOB_S \<and> useQueue JOB_S \<and> isScheduled JOB_S \<and>
   stop PW0 SH_OK JOB_S W0 = (Inr (), W0\<lparr>trace := trace W0 @ [KillWithChilds (getPid JOB_S)]\<rparr>)"
proof -
  have a: "isLocal JOB_S" by (simp add: isLocal_def LOCALHOST_def JOB_S_def JOB_Q_def)
  have b: "useQueue JOB_S" by (simp add: JOB_S_def JOB_Q_def)
  have c: "isScheduled JOB_S" by (simp add: JOB_S_def JOB_Q_def)
  from stop_scheduled_queued_no_cancel [OF a b c, of PW0 SH_OK W0] a b c show ?thesis by simp
qed

subsection \<open>C6: persisting the script\<close>

text \<open>
  C6 fails on the code. The file is opened before its directory is made: when the
  directory \<^verbatim>\<open>runs\<close> does not exist, opening \<^verbatim>\<open>runs/7.job\<close> raises and nothing is
  created or written.
\<close>

theorem submit_opens_before_making_directory:
  "''runs'' \<notin> dirs W0 \<and>
   submit PW0 SH_OK HOST_LOCAL D_NODIR W0 = (Inl (IOError ''runs/7.job''), W0)"
  by (simp add: eval_defs example_defs)

subsection \<open>C7: a placeholder missing from the descriptor\<close>

text \<open>
  Counterexample to C7 as stated: the submission command refers to \<^verbatim>\<open>QUEUE\<close>,
  which the descriptor lacks. The submission raises \<^verbatim>\<open>KeyError\<close>, and the script
  file, absent before, has been written.
\<close>

theorem submit_command_placeholder_after_write:
  "fst (submit PW0 SH_OK HOST_BADCMD D0 W0) = Inl (KeyError ''QUEUE'') \<and>
   files W0 ''logs/7.job'' = None \<and>
   files (snd (submit PW0 SH_OK HOST_BADCMD D0 W0)) ''logs/7.job'' = Some (''python run.py'' @ NL @ NL)"
  by (simp add: eval_defs example_defs)

text \<open>
  C7, amended. When rendering the script template fails, the submission fails with that
  error and the world is unchanged: nothing is written and nothing is spawned. When the
  script is rendered and opened and rendering the submission command fails, the
  submission fails with that error and nothing is spawned, but the script file has been
  written.
\<close>

theorem submit_missing_placeholder:
  "(fmt (getSubmitTemplate h) d = Inl e \<longrightarrow> submit pw sh h d w = (Inl e, w)) \<and>
   (fmt (getSubmitTemplate h) d = Inr text \<and> d ''JOB_SCRIPT'' = Some (PStr path) \<and>
    open_w path w = Inr w1 \<and> fmt (getSubmitCommand h) d = Inl e \<longrightarrow>
      submit pw sh h d w =
        (Inl e, w\<lparr>files := (files w)(path \<mapsto> text @ NL @ NL),
                  trace := trace w @ [FileOpen path, FileWrite path (text @ NL @ NL),
                                      FileClose path]\<rparr>))"
  using submit_render_fails submit_command_fails by blast

text \<open>
  The amended C7 at a script template and at a command template that refer to the
  missing \<^verbatim>\<open>QUEUE\<close>.
\<close>

theorem submit_missing_placeholder_witness:
  "submit PW0 SH_OK HOST_BADTPL D0 W0 = (Inl (KeyError ''QUEUE''), W0) \<and>
   submit PW0 SH_OK HOST_BADCMD D0 W0 =
     (Inl (KeyError ''QUEUE''),
      W0\<lparr>files := (files W0)(''logs/7.job'' \<mapsto> ''python run.py'' @ NL @ NL),
         trace := trace W0 @ [FileOpen ''logs/7.job'',
                              FileWrite ''logs/7.job'' (''python run.py'' @ NL @ NL),
                              FileClose ''logs/7.job'']\<rparr>)"
proof -
  have a: "fmt (getSubmitTemplate HOST_BADTPL) D0 = Inl (KeyError ''QUEUE'')"
    by (simp add: fmt_def HOST_BADTPL_def HOST_LOCAL_def D0_def)
  have b: "fmt (getSubmitTemplate HOST_BADCMD) D0 = Inr ''python run.py''"
    by (simp add: fmt_def HOST_BADCMD_def HOST_LOCAL_def D0_def)
  have c: "D0 ''JOB_SCRIPT'' = Some (PStr ''logs/7.job'')"
    by (simp add: D0_def)
  have d: "open_w ''logs/7.job'' W0 =
             Inr (W0\<lparr>files := (files W0)(''logs/7.job'' \<mapsto> []), trace := trace W0 @ [FileOpen ''logs/7.job'']\<rparr>)"
    by (simp add: open_w_def dirname_def W0_def emit_def)
  have e: "fmt (getSubmitCommand HOST_BADCMD) D0 = Inl (KeyError ''QUEUE'')"
    by (simp add: fmt_def HOST_BADCMD_def HOST_LOCAL_def D0_def)
  from submit_missing_placeholder [of HOST_BADTPL D0 "KeyError ''QUEUE''" PW0 SH_OK W0] a
  have "submit PW0 SH_OK HOST_BADTPL D0 W0 = (Inl (KeyError ''QUEUE''), W0)" by blast
  moreover
  from submit_missing_placeholder [of HOST_BADCMD D0 "KeyError ''QUEUE''" PW0 SH_OK W0
      "''python run.py''" "''logs/7.job''"] b c d e
  have "submit PW0 SH_OK HOST_BADCMD D0 W0 =
     (Inl (KeyError ''QUEUE''),
      W0\<lparr>files := (files W0)(''logs/7.job'' \<mapsto> ''python run.py'' @ NL @ NL),
         trace := trace W0 @ [FileOpen ''logs/7.job'',
                              FileWrite ''logs/7.job'' (''python run.py'' @ NL @ NL),
                              FileClose ''logs/7.job'']\<rparr>)" by blast
  ultimately show ?thesis by blast
qed

subsection \<open>C8: locality\<close>

text \<open>
  Counterexample to C8 as stated: \<open>JOB_X\<close> has an empty network address and the host
  name \<^verbatim>\<open>cluster\<close>; it is not local, and launching it dispatches through the remote
  shell.
\<close>

theorem launch_remote_with_empty_address:
  "getAddress (getHostConfig JOB_X) = [] \<and> \<not> isLocal JOB_X \<and>
   launch PW0 SH_987 JOB_X False W0 =
     (Inl (TypeError ''cannot use a string pattern on a bytes-like object''),
      W0\<lparr>trace := [Print (''** Running remote: '' @ remote_cmd JOB_X ''run''),
                   Spawn (remote_cmd JOB_X ''run''), WaitExit 4242]\<rparr>)"
  by (simp add: launch_def isLocal_def LOCALHOST_def launchRemote_eq JOB_X_def JOB_Q_def
      HOST_LOCAL_def SH_987_def emit_def W0_def PW0_def)

text \<open>
  C8, amended. A job is treated as local if and only if its host name is
  \<^verbatim>\<open>localhost\<close>; the network address of the host is not read by a local launch. A
  local job is submitted to the queue when it requests the queue and
  \<^verbatim>\<open>QUEUE_FOR_JOBS\<close> is \<^verbatim>\<open>"N"\<close>; it is run directly when it does not request the queue or
  \<^verbatim>\<open>QUEUE_FOR_JOBS\<close> has another value; the launch raises \<^verbatim>\<open>KeyError\<close> when it requests
  the queue and \<^verbatim>\<open>QUEUE_FOR_JOBS\<close> is missing. Any other job is launched by the remote
  procedure, which spawns the remote-shell command and waits for it.
\<close>

theorem launch_locality_by_host_name:
  "(isLocal p \<longleftrightarrow> getHostName p = ''localhost'') \<and>
   (getHostName p = ''localhost'' \<longrightarrow>
      launchLocal pw sh (p\<lparr>getHostConfig := (getHostConfig p)\<lparr>getAddress := a\<rparr>\<rparr>) wait w =
        launchLocal pw sh p wait w) \<and>
   (getHostName p = ''localhost'' \<and> useQueue p \<and>
    getSubmitDict p ''QUEUE_FOR_JOBS'' = Some (PStr ''N'') \<longrightarrow>
      launch pw sh p wait w =
        (case submit pw sh (getHostConfig p)
                ((getQueuesDefault (getHostConfig p) ++ getSubmitDict p)
                   (''JOB_COMMAND'' \<mapsto> PStr (protocol_command pw p))) w of
           (Inl e, w1) \<Rightarrow> (Inl e, w1)
         | (Inr jobId, w1) \<Rightarrow> (Inr (jobId, setJobId jobId p), w1))) \<and>
   (getHostName p = ''localhost'' \<and>
    (\<not> useQueue p \<or> (\<exists>v. getSubmitDict p ''QUEUE_FOR_JOBS'' = Some v \<and> v \<noteq> PStr ''N'')) \<longrightarrow>
      launch pw sh p wait w =
        (Inr (proc_pid (sh (protocol_command pw p)),
              setJobId (proc_pid (sh (protocol_command pw p))) p),
         w\<lparr>trace := trace w @
              Print (''** Running command: '' @ QUOTE @ greenStr pw (protocol_command pw p) @ QUOTE) #
              Spawn (protocol_command pw p) #
              (if wait then [WaitExit (proc_pid (sh (protocol_command pw p)))] else [])\<rparr>)) \<and>
   (getHostName p = ''localhost'' \<and> useQueue p \<and> getSubmitDict p ''QUEUE_FOR_JOBS'' = None \<longrightarrow>
      launch pw sh p wait w = (Inl (KeyError ''QUEUE_FOR_JOBS''), w)) \<and>
   (getHostName p \<noteq> ''localhost'' \<longrightarrow>
      launch pw sh p wait w =
        (case launchRemote pw sh p wait w of
           (Inl e, w1) \<Rightarrow> (Inl e, w1)
         | (Inr jobId, w1) \<Rightarrow> (Inr (jobId, setJobId jobId p), w1)) \<and>
      trace (snd (launch pw sh p wait w)) =
        trace w @ [Print (''** Running remote: '' @ greenStr pw (remote_cmd p ''run'')),
                   Spawn (remote_cmd p ''run''),
                   WaitExit (proc_pid (sh (remote_cmd p ''run'')))])"
proof (intro conjI impI)
  show "isLocal p \<longleftrightarrow> getHostName p = ''localhost''"
    by (simp add: isLocal_def LOCALHOST_def)
next
  show "launchLocal pw sh (p\<lparr>getHostConfig := (getHostConfig p)\<lparr>getAddress := a\<rparr>\<rparr>) wait w =
        launchLocal pw sh p wait w"
    by (rule launchLocal_ignores_address)
next
  assume "getHostName p = ''localhost'' \<and> useQueue p \<and>
          getSubmitDict p ''QUEUE_FOR_JOBS'' = Some (PStr ''N'')"
  then show "launch pw sh p wait w =
        (case submit pw sh (getHostConfig p)
                ((getQueuesDefault (getHostConfig p) ++ getSubmitDict p)
                   (''JOB_COMMAND'' \<mapsto> PStr (protocol_command pw p))) w of
           (Inl e, w1) \<Rightarrow> (Inl e, w1)
         | (Inr jobId, w1) \<Rightarrow> (Inr (jobId, setJobId jobId p), w1))"
    by (simp add: launch_local_queued)
next
  assume "getHostName p = ''localhost'' \<and>
    (\<not> useQueue p \<or> (\<exists>v. getSubmitDict p ''QUEUE_FOR_JOBS'' = Some v \<and> v \<noteq> PStr ''N''))"
  then show "launch pw sh p wait w =
        (Inr (proc_pid (sh (protocol_command pw p)),
              setJobId (proc_pid (sh (protocol_command pw p))) p),
         w\<lparr>trace := trace w @
              Print (''** Running command: '' @ QUOTE @ greenStr pw (protocol_command pw p) @ QUOTE) #
              Spawn (protocol_command pw p) #
              (if wait then [WaitExit (proc_pid (sh (protocol_command pw p)))] else [])\<rparr>)"
    using launch_local_direct by blast
next
  assume "getHostName p = ''localhost'' \<and> useQueue p \<and> getSubmitDict p ''QUEUE_FOR_JOBS'' = None"
  then show "launch pw sh p wait w = (Inl (KeyError ''QUEUE_FOR_JOBS''), w)"
    by (simp add: launch_local_no_key)
next
  assume a: "getHostName p \<noteq> ''localhost''"
  then show "launch pw sh p wait w =
        (case launchRemote pw sh p wait w of
           (Inl e, w1) \<Rightarrow> (Inl e, w1)
         | (Inr jobId, w1) \<Rightarrow> (Inr (jobId, setJobId jobId p), w1))"
    by (rule launch_remote(1))
  from a show "trace (snd (launch pw sh p wait w)) =
        trace w @ [Print (''** Running remote: '' @ greenStr pw (remote_cmd p ''run'')),
                   Spawn (remote_cmd p ''run''),
                   WaitExit (proc_pid (sh (remote_cmd p ''run'')))]"
    by (rule launch_remote(2))
qed

text \<open>
  The amended C8 at the local queued \<open>JOB_Q\<close>, the local \<open>JOB_Y\<close> with
  \<^verbatim>\<open>QUEUE_FOR_JOBS = "Y"\<close>, and the remote \<open>JOB_R\<close>.
\<close>

theorem launch_locality_by_host_name_witness:
  "isLocal JOB_Q \<and> \<not> isLocal JOB_R \<and>
   launchLocal PW0 SH_OK (JOB_Q\<lparr>getHostConfig := (getHostConfig JOB_Q)\<lparr>getAddress := ''cluster.example.org''\<rparr>\<rparr>) False W0 =
     launchLocal PW0 SH_OK JOB_Q False W0 \<and>
   launch PW0 SH_OK JOB_Q False W0 =
     (case submit PW0 SH_OK (getHostConfig JOB_Q)
             ((getQueuesDefault (getHostConfig JOB_Q) ++ getSubmitDict JOB_Q)
                (''JOB_COMMAND'' \<mapsto> PStr (protocol_command PW0 JOB_Q))) W0 of
        (Inl e, w1) \<Rightarrow> (Inl e, w1)
      | (Inr jobId, w1) \<Rightarrow> (Inr (jobId, setJobId jobId JOB_Q), w1)) \<and>
   fst (launch PW0 SH_OK JOB_Y False W0) = Inr (4242, setJobId 4242 JOB_Y) \<and>
   trace (snd (launch PW0 SH_987 JOB_R False W0)) =
     trace W0 @ [Print (''** Running remote: '' @ greenStr PW0 (remote_cmd JOB_R ''run'')),
                 Spawn (remote_cmd JOB_R ''run''),
                 WaitExit (proc_pid (SH_987 (remote_cmd JOB_R ''run'')))]"
proof -
  have a: "getHostName JOB_Q = ''localhost''" by (simp add: JOB_Q_def)
  have q: "getHostName JOB_Q = ''localhost'' \<and> useQueue JOB_Q \<and>
           getSubmitDict JOB_Q ''QUEUE_FOR_JOBS'' = Some (PStr ''N'')"
    by (simp add: JOB_Q_def)
  have y: "getHostName JOB_Y = ''localhost'' \<and>
           (\<not> useQueue JOB_Y \<or>
            (\<exists>v. getSubmitDict JOB_Y ''QUEUE_FOR_JOBS'' = Some v \<and> v \<noteq> PStr ''N''))"
    by (simp add: JOB_Y_def JOB_Q_def)
  have b: "getHostName JOB_R \<noteq> ''localhost''" by (simp add: JOB_R_def JOB_Q_def)
  have pid: "proc_pid (SH_OK (protocol_command PW0 JOB_Y)) = 4242" by (simp add: SH_OK_def)
  from launch_locality_by_host_name [of JOB_Q PW0 SH_OK "''cluster.example.org''" False W0] a q
  have 1: "isLocal JOB_Q"
    and 2: "launchLocal PW0 SH_OK (JOB_Q\<lparr>getHostConfig := (getHostConfig JOB_Q)\<lparr>getAddress := ''cluster.example.org''\<rparr>\<rparr>) False W0 =
     launchLocal PW0 SH_OK JOB_Q False W0"
    and 3: "launch PW0 SH_OK JOB_Q False W0 =
     (case submit PW0 SH_OK (getHostConfig JOB_Q)
             ((getQueuesDefault (getHostConfig JOB_Q) ++ getSubmitDict JOB_Q)
                (''JOB_COMMAND'' \<mapsto> PStr (protocol_command PW0 JOB_Q))) W0 of
        (Inl e, w1) \<Rightarrow> (Inl e, w1)
      | (Inr jobId, w1) \<Rightarrow> (Inr (jobId, setJobId jobId JOB_Q), w1))"
    by blast+
  from launch_locality_by_host_name [of JOB_Y PW0 SH_OK a False W0] y
  have "launch PW0 SH_OK JOB_Y False W0 =
        (Inr (proc_pid (SH_OK (protocol_command PW0 JOB_Y)),
              setJobId (proc_pid (SH_OK (protocol_command PW0 JOB_Y))) JOB_Y),
         W0\<lparr>trace := trace W0 @
              Print (''** Running command: '' @ QUOTE @ greenStr PW0 (protocol_command PW0 JOB_Y) @ QUOTE) #
              Spawn (protocol_command PW0 JOB_Y) #
              (if False then [WaitExit (proc_pid (SH_OK (protocol_command PW0 JOB_Y)))] else [])\<rparr>)"
    by blast
  with pid have 4: "fst (launch PW0 SH_OK JOB_Y False W0) = Inr (4242, setJobId 4242 JOB_Y)"
    by simp
  from launch_locality_by_host_name [of JOB_R PW0 SH_987 a False W0] b
  have 5: "\<not> isLocal JOB_R"
    and 6: "trace (snd (launch PW0 SH_987 JOB_R False W0)) =
     trace W0 @ [Print (''** Running remote: '' @ greenStr PW0 (remote_cmd JOB_R ''run'')),
                 Spawn (remote_cmd JOB_R ''run''),
                 WaitExit (proc_pid (SH_987 (remote_cmd JOB_R ''run'')))]"
    by blast+
  from 1 2 3 4 5 6 show ?thesis by blast
qed

subsection \<open>C9: waiting for the remote helper\<close>

text \<open>
  Counterexample to C9 as stated: stopping the remote job \<open>JOB_R\<close> prints and spawns
  the helper, and returns; nothing waits for the helper to exit.
\<close>

theorem stopRemote_does_not_wait:
  "trace (snd (stop PW0 SH_987 JOB_R W0)) =
     [Print (''** Running remote: '' @ remote_cmd JOB_R ''stop''), Spawn (remote_cmd JOB_R ''stop'')]"
  by (simp add: stop_def isLocal_def LOCALHOST_def stopRemote_eq emit_def JOB_R_def JOB_Q_def
      W0_def PW0_def)

text \<open>
  C9, amended. In run mode the remote dispatch spawns the helper and waits for it to
  exit before returning; in stop mode it spawns the helper and returns without waiting.
\<close>

theorem remote_dispatch_waits_in_run_mode_only:
  "trace (snd (launchRemote pw sh p wait w)) =
     trace w @ [Print (''** Running remote: '' @ greenStr pw (remote_cmd p ''run'')),
                Spawn (remote_cmd p ''run''),
                WaitExit (proc_pid (sh (remote_cmd p ''run'')))] \<and>
   trace (snd (stopRemote pw sh p w)) =
     trace w @ [Print (''** Running remote: '' @ greenStr pw (remote_cmd p ''stop'')),
                Spawn (remote_cmd p ''stop'')]"
  by (simp add: launchRemote_eq stopRemote_eq emit_def)

text \<open>
  The amended C9 at \<open>JOB_R\<close>.
\<close>

theorem remote_dispatch_waits_in_run_mode_only_witness:
  "trace (snd (launchRemote PW0 SH_987 JOB_R False W0)) =
     [Print (''** Running remote: '' @ remote_cmd JOB_R ''run''),
      Spawn (remote_cmd JOB_R ''run''), WaitExit 4242] \<and>
   trace (snd (stopRemote PW0 SH_987 JOB_R W0)) =
     [Print (''** Running remote: '' @ remote_cmd JOB_R ''stop''),
      Spawn (remote_cmd JOB_R ''stop'')]"
  using remote_dispatch_waits_in_run_mode_only [of PW0 SH_987 JOB_R False W0]
  by (simp add: PW0_def W0_def SH_987_def)

subsection \<open>C10: the script is on disk before the spawn\<close>

text \<open>
  C10. When the script template renders, every submission that spawns the submission
  command, and every submission that returns a job id (the sentinel of a soft failure
  included), has opened, written and closed the script file before the spawn, spawns
  nothing after it, and leaves the file holding the rendered script and two line ends.
\<close>

theorem submit_script_on_disk_before_spawn:
  assumes "fmt (getSubmitTemplate h) d = Inr text"
    and "Spawn cmd \<in> set (drop (length (trace w)) (trace (snd (submit pw sh h d w)))) \<or>
         fst (submit pw sh h d w) = Inr j"
  shows "\<exists>path command post.
           d ''JOB_SCRIPT'' = Some (PStr path) \<and> fmt (getSubmitCommand h) d = Inr command \<and>
           trace (snd (submit pw sh h d w)) =
             trace w @ [FileOpen path, FileWrite path (text @ NL @ NL), FileClose path,
                        Print (''** Submitting to queue: '' @ QUOTE @ greenStr pw command @ QUOTE),
                        Spawn command, WaitExit (proc_pid (sh command))] @ post \<and>
           (\<forall>c. Spawn c \<notin> set post) \<and>
           files (snd (submit pw sh h d w)) path = Some (text @ NL @ NL)"
proof -
  from assms obtain path w1 command where
    p: "d ''JOB_SCRIPT'' = Some (PStr path)" and o: "open_w path w = Inr w1"
    and c: "fmt (getSubmitCommand h) d = Inr command"
    using submit_spawn_needs_script submit_returns_after_spawn by blast
  from submit_spawned [OF assms(1) p o c, of pw sh] obtain post where
    post: "post = [] \<or> (\<exists>msg. post = [Print msg])"
    and s: "snd (submit pw sh h d w) =
             w\<lparr>files := (files w)(path \<mapsto> text @ NL @ NL),
               trace := trace w @ [FileOpen path, FileWrite path (text @ NL @ NL), FileClose path,
                          Print (''** Submitting to queue: '' @ QUOTE @ greenStr pw command @ QUOTE),
                          Spawn command, WaitExit (proc_pid (sh command))] @ post\<rparr>"
    by blast
  from post have "\<forall>c. Spawn c \<notin> set post" by auto
  with p c s show ?thesis by simp
qed

text \<open>
  C10 at a submission that soft-fails: the output has no digits, the sentinel is
  returned and the script is on disk.
\<close>

theorem submit_script_on_disk_before_spawn_witness:
  "fst (submit PW0 SH_NOID HOST_LOCAL D0 W0) = Inr (UNKNOWN_JOBID PW0) \<and>
   files (snd (submit PW0 SH_NOID HOST_LOCAL D0 W0)) ''logs/7.job'' = Some (''python run.py'' @ NL @ NL)"
proof -
  have r: "fmt (getSubmitTemplate HOST_LOCAL) D0 = Inr ''python run.py''"
    by (simp add: fmt_def HOST_LOCAL_def D0_def)
  have u: "fst (submit PW0 SH_NOID HOST_LOCAL D0 W0) = Inr (UNKNOWN_JOBID PW0)"
    by (simp add: eval_defs example_defs)
  from submit_script_on_disk_before_spawn [OF r disjI2 [OF u]] u
  show ?thesis by (auto simp: D0_def)
qed

end
